theory Spec2Isabelle
  imports Complex_Main "HOL-Library.AList" "HOL-Library.Multiset"
begin

section \<open>The listening-party worker: data model\<close>

text \<open>
  This theory embeds the POST route of \<^verbatim>\<open>src/server.js\<close> (its current version,
  lines 1 to 832 of the file) together with the command names of \<^verbatim>\<open>src/commands.js\<close>.

  Conventions of the embedding.
  \<^item> A JavaScript string is a \<open>string\<close>; only characters of the 8-bit range are
    representable, so the line terminators of a regular expression are line feed and
    carriage return.
  \<^item> The key-value store \<^verbatim>\<open>env.DB\<close> holds one value per key. A value is kept decoded:
    \<open>Absent\<close> is a key that is not in the store (\<^verbatim>\<open>get\<close> gives \<^verbatim>\<open>null\<close>), \<open>Blank\<close> is the
    empty string and \<open>Json v\<close> is \<^verbatim>\<open>JSON.stringify(v)\<close>, which is never the empty
    string. \<^verbatim>\<open>SESSION_ACTIVE\<close> holds a raw string.
  \<^item> A JavaScript object used as a dictionary is an association list in insertion
    order. Property lookup is \<open>map_of\<close>, assignment is \<open>AList.update\<close> (in place when the
    key exists, appended otherwise) and \<^verbatim>\<open>delete\<close> is \<open>AList.delete\<close>. The truth
    test \<^verbatim>\<open>history[id]\<close> also sees the properties that every object inherits from
    \<^verbatim>\<open>Object.prototype\<close> (\<open>Object_prototype_names\<close>): a video id is typed in by the
    manager and can be such a name. The keys of \<^verbatim>\<open>VOTED_USERS\<close> are user ids issued by
    the chat platform, long decimal numbers, which are neither such names nor array
    indices.
  \<^item> An interaction sent from a server carries \<^verbatim>\<open>member\<close>, one sent from a direct
    message carries \<^verbatim>\<open>user\<close> instead. The code reads \<^verbatim>\<open>interaction.member.user.id\<close>
    only, which throws when \<^verbatim>\<open>member\<close> is absent; a thrown exception is the reply
    \<open>Threw\<close> (the router answers with status 500).
  \<^item> Numbers are integers and naturals; the average of a track is the exact quotient
    (a rational), which orders and compares with 1 as the quotient of two doubles does
    for the small counts that occur here.
  \<^item> Every \<^verbatim>\<open>env.DB\<close> call is recorded in a trace, so that "nothing was read" and
    "nothing was written" are statements about the model.
  \<^item> Request verification, rendering of message texts and the network are outside: a
    request arrives verified, a reply is the kind of message with the data it shows, and
    the YouTube API is a pair of functions of the environment.
\<close>

datatype 'a slot = Absent | Blank | Json 'a

definition truthy :: "'a slot \<Rightarrow> bool" where
  \<comment> \<open>the test \<^verbatim>\<open>if (str)\<close> on what \<^verbatim>\<open>env.DB.get\<close> returned\<close>
  "truthy str = (case str of Json _ \<Rightarrow> True | _ \<Rightarrow> False)"

definition parse_or :: "'a \<Rightarrow> 'a slot \<Rightarrow> 'a" where
  \<comment> \<open>\<^verbatim>\<open>str ? JSON.parse(str) : d\<close>\<close>
  "parse_or d str = (case str of Json v \<Rightarrow> v | _ \<Rightarrow> d)"

record track =
  track_title :: string
  track_id :: string
  track_thumbnail :: "string option"

record song =
  song_title :: string
  song_id :: string
  song_votes :: int

record hist_entry =
  title :: string
  totalPoints :: int
  voterCount :: nat
  participantCount :: nat

record store =
  session_active :: "string option"
  queue :: "track list slot"
  current_song :: "song slot"
  session_participants :: "string list slot"
  eligible_voters :: "string list slot"
  voted_users :: "(string \<times> int) list slot"
  history :: "(string \<times> hist_entry) list slot"

datatype key =
  SESSION_ACTIVE | QUEUE | CURRENT_SONG | SESSION_PARTICIPANTS
  | ELIGIBLE_VOTERS | VOTED_USERS | HISTORY

datatype access = Get key | Put key | Delete key

record state =
  db :: store
  trace :: "access list"

definition empty_store :: store where
  "empty_store =
     \<lparr>session_active = None, queue = Absent, current_song = Absent,
      session_participants = Absent, eligible_voters = Absent, voted_users = Absent,
      history = Absent\<rparr>"

definition init :: state where
  "init = \<lparr>db = empty_store, trace = []\<rparr>"

subsection \<open>The store port\<close>

definition logged :: "access \<Rightarrow> state \<Rightarrow> state" where
  "logged a st = st\<lparr>trace := trace st @ [a]\<rparr>"

definition get_SESSION_ACTIVE :: "state \<Rightarrow> string option \<times> state" where
  "get_SESSION_ACTIVE st = (session_active (db st), logged (Get SESSION_ACTIVE) st)"

definition get_QUEUE :: "state \<Rightarrow> track list slot \<times> state" where
  "get_QUEUE st = (queue (db st), logged (Get QUEUE) st)"

definition get_CURRENT_SONG :: "state \<Rightarrow> song slot \<times> state" where
  "get_CURRENT_SONG st = (current_song (db st), logged (Get CURRENT_SONG) st)"

definition get_SESSION_PARTICIPANTS :: "state \<Rightarrow> string list slot \<times> state" where
  "get_SESSION_PARTICIPANTS st =
     (session_participants (db st), logged (Get SESSION_PARTICIPANTS) st)"

definition get_ELIGIBLE_VOTERS :: "state \<Rightarrow> string list slot \<times> state" where
  "get_ELIGIBLE_VOTERS st = (eligible_voters (db st), logged (Get ELIGIBLE_VOTERS) st)"

definition get_VOTED_USERS :: "state \<Rightarrow> (string \<times> int) list slot \<times> state" where
  "get_VOTED_USERS st = (voted_users (db st), logged (Get VOTED_USERS) st)"

definition get_HISTORY :: "state \<Rightarrow> (string \<times> hist_entry) list slot \<times> state" where
  "get_HISTORY st = (history (db st), logged (Get HISTORY) st)"

definition put_SESSION_ACTIVE :: "string \<Rightarrow> state \<Rightarrow> state" where
  "put_SESSION_ACTIVE v st =
     logged (Put SESSION_ACTIVE) (st\<lparr>db := (db st)\<lparr>session_active := Some v\<rparr>\<rparr>)"

definition put_QUEUE :: "track list slot \<Rightarrow> state \<Rightarrow> state" where
  "put_QUEUE v st = logged (Put QUEUE) (st\<lparr>db := (db st)\<lparr>queue := v\<rparr>\<rparr>)"

definition put_CURRENT_SONG :: "song slot \<Rightarrow> state \<Rightarrow> state" where
  "put_CURRENT_SONG v st =
     logged (Put CURRENT_SONG) (st\<lparr>db := (db st)\<lparr>current_song := v\<rparr>\<rparr>)"

definition put_SESSION_PARTICIPANTS :: "string list slot \<Rightarrow> state \<Rightarrow> state" where
  "put_SESSION_PARTICIPANTS v st =
     logged (Put SESSION_PARTICIPANTS) (st\<lparr>db := (db st)\<lparr>session_participants := v\<rparr>\<rparr>)"

definition put_ELIGIBLE_VOTERS :: "string list slot \<Rightarrow> state \<Rightarrow> state" where
  "put_ELIGIBLE_VOTERS v st =
     logged (Put ELIGIBLE_VOTERS) (st\<lparr>db := (db st)\<lparr>eligible_voters := v\<rparr>\<rparr>)"

definition put_VOTED_USERS :: "(string \<times> int) list slot \<Rightarrow> state \<Rightarrow> state" where
  "put_VOTED_USERS v st =
     logged (Put VOTED_USERS) (st\<lparr>db := (db st)\<lparr>voted_users := v\<rparr>\<rparr>)"

definition put_HISTORY :: "(string \<times> hist_entry) list slot \<Rightarrow> state \<Rightarrow> state" where
  "put_HISTORY v st = logged (Put HISTORY) (st\<lparr>db := (db st)\<lparr>history := v\<rparr>\<rparr>)"

definition delete_CURRENT_SONG :: "state \<Rightarrow> state" where
  "delete_CURRENT_SONG st =
     logged (Delete CURRENT_SONG) (st\<lparr>db := (db st)\<lparr>current_song := Absent\<rparr>\<rparr>)"

definition delete_VOTED_USERS :: "state \<Rightarrow> state" where
  "delete_VOTED_USERS st =
     logged (Delete VOTED_USERS) (st\<lparr>db := (db st)\<lparr>voted_users := Absent\<rparr>\<rparr>)"

definition delete_ELIGIBLE_VOTERS :: "state \<Rightarrow> state" where
  "delete_ELIGIBLE_VOTERS st =
     logged (Delete ELIGIBLE_VOTERS) (st\<lparr>db := (db st)\<lparr>eligible_voters := Absent\<rparr>\<rparr>)"

definition delete_HISTORY :: "state \<Rightarrow> state" where
  "delete_HISTORY st = logged (Delete HISTORY) (st\<lparr>db := (db st)\<lparr>history := Absent\<rparr>\<rparr>)"


subsection \<open>Requests, the environment and replies\<close>

datatype interaction_data =
    PING
  | APPLICATION_COMMAND string "(string \<times> string) list option"
  | MESSAGE_COMPONENT string
  | OTHER_INTERACTION

record interaction =
  member_user_id :: "string option"
  user_id :: "string option"
  data :: interaction_data

datatype 'a fetched = Rejected | Resolved 'a

record playlist_item =
  snippet_title :: string
  resource_videoId :: string
  thumbnail_high :: "string option"
  thumbnail_default :: "string option"

record env =
  MANAGER_USER_ID :: string
  youtube_video_title :: "string \<Rightarrow> string option fetched"
  youtube_playlist_items :: "string \<Rightarrow> playlist_item list option fetched"

record now_playing =
  np_title :: string
  np_url :: string
  np_image :: string
  np_remaining :: "nat option"
  np_buttons :: "string list"

record vote_result =
  vr_title :: string
  vr_totalPoints :: int
  vr_voterCount :: nat
  vr_participantCount :: nat
  vr_average :: rat
  vr_highApproval :: bool

type_synonym summary_line = "string \<times> rat \<times> nat"

datatype message =
    Forbidden
  | AlreadyActive | InvalidReference | EmptyOrInaccessible
  | SessionStarted "nat option"
  | NotActive | VoteInProgress | UnresolvableUrl
  | NowPlaying now_playing
  | QueueEmpty
  | NoCurrentSong
  | VoteEnded vote_result
  | SessionEnded "summary_line list"
  | AlreadyJoined | Joined nat
  | NotJoined | Left
  | TargetNotJoined | Kicked
  | NoParticipants | ParticipantList "string list"
  | SessionClosed | VoteClosed | NotAParticipant | NotEligible
  | VoteRetracted | VoteCast int

datatype response =
    PONG
  | ChannelMessage message bool
  | BadRequest_UnknownType
  | BadRequest_UnknownError
  | Threw

abbreviation ephemeral :: "message \<Rightarrow> response" where
  "ephemeral m \<equiv> ChannelMessage m True"

abbreviation public :: "message \<Rightarrow> response" where
  "public m \<equiv> ChannelMessage m False"


section \<open>Helper functions\<close>

definition is_line_terminator :: "char \<Rightarrow> bool" where
  \<comment> \<open>what \<^verbatim>\<open>.\<close> does not match\<close>
  "is_line_terminator c = (c = CHR 0x0A \<or> c = CHR 0x0D)"

definition is_word_char :: "char \<Rightarrow> bool" where
  \<comment> \<open>\<^verbatim>\<open>\w\<close>\<close>
  "is_word_char c =
     (let n = (of_char c :: nat)
      in (65 \<le> n \<and> n \<le> 90) \<or> (97 \<le> n \<and> n \<le> 122) \<or> (48 \<le> n \<and> n \<le> 57) \<or> n = 95)"

definition marker_at :: "string \<Rightarrow> nat option" where
  \<comment> \<open>the length matched at the start of \<open>s\<close> by group 1,
      \<^verbatim>\<open>(youtu.be\/|v\/|u\/\w\/|embed\/|watch\?v=|&v=)\<close>\<close>
  "marker_at s =
     (if take 5 s = ''youtu'' \<and> 9 \<le> length s \<and> \<not> is_line_terminator (s ! 5)
           \<and> take 3 (drop 6 s) = ''be/'' then Some 9
      else if take 2 s = ''v/'' then Some 2
      else if take 2 s = ''u/'' \<and> 4 \<le> length s \<and> is_word_char (s ! 2) \<and> s ! 3 = CHR ''/''
        then Some 4
      else if take 6 s = ''embed/'' then Some 6
      else if take 8 s = ''watch?v='' then Some 8
      else if take 3 s = ''&v='' then Some 3
      else None)"

fun after_last_marker :: "string \<Rightarrow> string option" where
  \<comment> \<open>\<^verbatim>\<open>^.*\<close> is greedy: the marker taken is the last one that a prefix free of line
      terminators reaches; the result is the input after it\<close>
  "after_last_marker [] = None"
| "after_last_marker (c # cs) =
     (case (if is_line_terminator c then None else after_last_marker cs) of
        Some r \<Rightarrow> Some r
      | None \<Rightarrow>
          (case marker_at (c # cs) of
             Some n \<Rightarrow> Some (drop n (c # cs))
           | None \<Rightarrow> None))"

definition getVideoId :: "string \<Rightarrow> string option" where
  "getVideoId url =
     (case after_last_marker url of
        None \<Rightarrow> None
      | Some rest \<Rightarrow>
          (let match2 = takeWhile (\<lambda>c. c \<noteq> CHR ''#'' \<and> c \<noteq> CHR ''&'' \<and> c \<noteq> CHR ''?'') rest
           in if length match2 = 11 then Some match2 else None))"

fun getPlaylistId :: "string \<Rightarrow> string option" where
  \<comment> \<open>\<^verbatim>\<open>/[?&]list=([^#&]+)/\<close>: the leftmost match\<close>
  "getPlaylistId [] = None"
| "getPlaylistId (c # cs) =
     (let match1 = takeWhile (\<lambda>x. x \<noteq> CHR ''#'' \<and> x \<noteq> CHR ''&'') (drop 5 cs)
      in if (c = CHR ''?'' \<or> c = CHR ''&'') \<and> take 5 cs = ''list='' \<and> match1 \<noteq> []
         then Some match1
         else getPlaylistId cs)"

definition getVideoTitle :: "env \<Rightarrow> string \<Rightarrow> string fetched" where
  \<comment> \<open>\<^verbatim>\<open>data.items?.[0]?.snippet?.title || 'Unknown Song'\<close>\<close>
  "getVideoTitle env videoId =
     (case youtube_video_title env videoId of
        Rejected \<Rightarrow> Rejected
      | Resolved None \<Rightarrow> Resolved ''Unknown Song''
      | Resolved (Some t) \<Rightarrow> Resolved (if t = [] then ''Unknown Song'' else t))"

definition item_thumbnail :: "playlist_item \<Rightarrow> string option" where
  \<comment> \<open>\<^verbatim>\<open>thumbnails?.high?.url || thumbnails?.default?.url\<close>\<close>
  "item_thumbnail item =
     (case thumbnail_high item of
        Some h \<Rightarrow> (if h = [] then thumbnail_default item else Some h)
      | None \<Rightarrow> thumbnail_default item)"

definition getPlaylistItems :: "env \<Rightarrow> string \<Rightarrow> track list fetched" where
  "getPlaylistItems env playlistId =
     (case youtube_playlist_items env playlistId of
        Rejected \<Rightarrow> Rejected
      | Resolved None \<Rightarrow> Resolved []
      | Resolved (Some items) \<Rightarrow>
          Resolved (map (\<lambda>item. \<lparr>track_title = snippet_title item,
                                 track_id = resource_videoId item,
                                 track_thumbnail = item_thumbnail item\<rparr>) items))"

definition isManager :: "interaction \<Rightarrow> env \<Rightarrow> bool option" where
  \<comment> \<open>\<^verbatim>\<open>interaction.member.user.id === env.MANAGER_USER_ID\<close>; \<open>None\<close> is the exception
      thrown when the interaction has no \<^verbatim>\<open>member\<close>\<close>
  "isManager interaction env =
     (case member_user_id interaction of
        None \<Rightarrow> None
      | Some userId \<Rightarrow> Some (userId = MANAGER_USER_ID env))"

definition lower_char :: "char \<Rightarrow> char" where
  \<comment> \<open>an upper-case letter (65 to 90) becomes the letter 32 above it: bit 5 is set\<close>
  "lower_char c =
     (if 65 \<le> (of_char c :: nat) \<and> (of_char c :: nat) \<le> 90
      then (case c of Char b0 b1 b2 b3 b4 b5 b6 b7 \<Rightarrow> Char b0 b1 b2 b3 b4 True b6 b7)
      else c)"

definition toLowerCase :: "string \<Rightarrow> string" where
  "toLowerCase s = map lower_char s"

definition find_option :: "string \<Rightarrow> (string \<times> string) list option \<Rightarrow> string option" where
  \<comment> \<open>\<^verbatim>\<open>interaction.data.options?.find((o) => o.name === name)\<close>, giving the value\<close>
  "find_option name opts = (case opts of None \<Rightarrow> None | Some os \<Rightarrow> map_of os name)"

definition voteMatch :: "string \<Rightarrow> (int \<times> string) option" where
  \<comment> \<open>\<^verbatim>\<open>customId.match(/^vote_([12])_(.+)$/)\<close> with \<^verbatim>\<open>parseInt\<close> of group 1\<close>
  "voteMatch customId =
     (let digit = customId ! 5; rest = drop 7 customId
      in if take 5 customId = ''vote_'' \<and> 8 \<le> length customId
            \<and> (digit = CHR ''1'' \<or> digit = CHR ''2'') \<and> customId ! 6 = CHR ''_''
            \<and> \<not> list_ex is_line_terminator rest
         then Some (if digit = CHR ''1'' then 1 else 2, rest)
         else None)"

definition average_of :: "int \<Rightarrow> nat \<Rightarrow> rat" where
  \<comment> \<open>\<^verbatim>\<open>participantCount > 0 ? totalPoints / participantCount : 0\<close>\<close>
  "average_of points n =
     (if n > 0 then of_int points / of_nat n else 0)"

fun insert_by :: "('a \<Rightarrow> 'a \<Rightarrow> rat) \<Rightarrow> 'a \<Rightarrow> 'a list \<Rightarrow> 'a list" where
  "insert_by cmp x [] = [x]"
| "insert_by cmp x (y # ys) =
     (if cmp x y \<le> 0 then x # y # ys else y # insert_by cmp x ys)"

definition array_sort :: "('a \<Rightarrow> 'a \<Rightarrow> rat) \<Rightarrow> 'a list \<Rightarrow> 'a list" where
  \<comment> \<open>\<^verbatim>\<open>Array.prototype.sort(cmp)\<close>, which the language defines to be stable: a stable
      insertion sort, where an element stays before the later elements it does not
      compare greater than\<close>
  "array_sort cmp xs = foldr (insert_by cmp) xs []"

section \<open>Command names\<close>

definition SESSION_START_COMMAND_name :: string where
  "SESSION_START_COMMAND_name = ''session-start''"

definition SESSION_END_COMMAND_name :: string where
  "SESSION_END_COMMAND_name = ''session-end''"

definition VOTE_START_COMMAND_name :: string where
  "VOTE_START_COMMAND_name = ''vote-start''"

definition VOTE_NEXT_COMMAND_name :: string where
  "VOTE_NEXT_COMMAND_name = ''vote-next''"

definition VOTE_END_COMMAND_name :: string where
  "VOTE_END_COMMAND_name = ''vote-end''"

definition ENTER_COMMAND_name :: string where
  "ENTER_COMMAND_name = ''enter''"

definition EXIT_COMMAND_name :: string where
  "EXIT_COMMAND_name = ''exit''"

definition KICK_COMMAND_name :: string where
  "KICK_COMMAND_name = ''kick''"

definition PARTICIPANTS_COMMAND_name :: string where
  "PARTICIPANTS_COMMAND_name = ''participants''"


definition managerOnlyCommands :: "string list" where
  "managerOnlyCommands =
     [SESSION_START_COMMAND_name, SESSION_END_COMMAND_name, VOTE_START_COMMAND_name,
      VOTE_END_COMMAND_name, VOTE_NEXT_COMMAND_name, KICK_COMMAND_name,
      PARTICIPANTS_COMMAND_name]"


section \<open>The command handlers\<close>

definition vote_buttons :: "string \<Rightarrow> string list" where
  \<comment> \<open>the \<^verbatim>\<open>custom_id\<close>s of the two buttons under a track\<close>
  "vote_buttons vidId = [''vote_1_'' @ vidId, ''vote_2_'' @ vidId]"

definition session_start_execution ::
    "track list \<Rightarrow> nat option \<Rightarrow> state \<Rightarrow> response \<times> state" where
  \<comment> \<open>"3. EXECUTION: Only runs if validation passed"\<close>
  "session_start_execution initialQueue loaded st1 =
     (let st2 = put_SESSION_ACTIVE ''true'' st1;
          st3 = delete_CURRENT_SONG st2;
          st4 = delete_VOTED_USERS st3;
          st5 = delete_ELIGIBLE_VOTERS st4;
          st6 = delete_HISTORY st5;
          st7 = put_SESSION_PARTICIPANTS (Json []) st6;
          st8 = put_QUEUE (Json initialQueue) st7
      in (public (SessionStarted loaded), st8))"

definition session_start ::
    "env \<Rightarrow> (string \<times> string) list option \<Rightarrow> state \<Rightarrow> response \<times> state" where
  "session_start env opts st0 =
     (let (session_active, st1) = get_SESSION_ACTIVE st0
      in if session_active = Some ''true'' then (ephemeral AlreadyActive, st1)
         else
           (case find_option ''playlist_url'' opts of
              None \<Rightarrow> session_start_execution [] None st1
            | Some playlist_url \<Rightarrow>
                (case getPlaylistId playlist_url of
                   None \<Rightarrow> (ephemeral InvalidReference, st1)
                 | Some pid \<Rightarrow>
                     (case getPlaylistItems env pid of
                        Rejected \<Rightarrow> (Threw, st1)
                      | Resolved items \<Rightarrow>
                          if length items = 0 then (ephemeral EmptyOrInaccessible, st1)
                          else session_start_execution items (Some (length items)) st1))))"

definition vote_start ::
    "env \<Rightarrow> (string \<times> string) list option \<Rightarrow> state \<Rightarrow> response \<times> state" where
  "vote_start env opts st0 =
     (let (session_active, st1) = get_SESSION_ACTIVE st0
      in if session_active = Some ''false'' then (ephemeral NotActive, st1)
         else
           (let (songDataStr, st2) = get_CURRENT_SONG st1
            in if truthy songDataStr then (ephemeral VoteInProgress, st2)
               else
                 (case find_option ''url'' opts of
                    None \<Rightarrow> (Threw, st2)
                  | Some url \<Rightarrow>
                      (case getVideoId url of
                         None \<Rightarrow> (ephemeral UnresolvableUrl, st2)
                       | Some vidId \<Rightarrow>
                           (case getVideoTitle env vidId of
                              Rejected \<Rightarrow> (Threw, st2)
                            | Resolved song_name \<Rightarrow>
                                (let (participantsStr, st3) = get_SESSION_PARTICIPANTS st2;
                                     participants = parse_or [] participantsStr;
                                     st4 = put_CURRENT_SONG
                                             (Json \<lparr>song_title = song_name, song_id = vidId,
                                                    song_votes = 0\<rparr>) st3;
                                     st5 = put_VOTED_USERS (Json []) st4;
                                     st6 = put_ELIGIBLE_VOTERS (Json participants) st5
                                 in (public (NowPlaying
                                       \<lparr>np_title = song_name, np_url = url,
                                        np_image = ''https://img.youtube.com/vi/'' @ vidId
                                                     @ ''/mqdefault.jpg'',
                                        np_remaining = None,
                                        np_buttons = vote_buttons vidId\<rparr>), st6)))))))"

definition vote_next :: "state \<Rightarrow> response \<times> state" where
  "vote_next st0 =
     (let (session_active, st1) = get_SESSION_ACTIVE st0
      in if session_active \<noteq> Some ''true'' then (ephemeral NotActive, st1)
         else
           (let (currentSong, st2) = get_CURRENT_SONG st1
            in if truthy currentSong then (ephemeral VoteInProgress, st2)
               else
                 (let (queueStr, st3) = get_QUEUE st2
                  in case parse_or [] queueStr of
                       [] \<Rightarrow> (ephemeral QueueEmpty, st3)
                     | nextSong # remaining \<Rightarrow>
                         (let st4 = put_QUEUE (Json remaining) st3;
                              (participantsStr, st5) = get_SESSION_PARTICIPANTS st4;
                              participants = parse_or [] participantsStr;
                              st6 = put_CURRENT_SONG
                                      (Json \<lparr>song_title = track_title nextSong,
                                             song_id = track_id nextSong,
                                             song_votes = 0\<rparr>) st5;
                              st7 = put_VOTED_USERS (Json []) st6;
                              st8 = put_ELIGIBLE_VOTERS (Json participants) st7
                          in (public (NowPlaying
                                \<lparr>np_title = track_title nextSong,
                                 np_url = ''https://www.youtube.com/watch?v='' @ track_id nextSong,
                                 np_image =
                                   (case track_thumbnail nextSong of
                                      Some t \<Rightarrow>
                                        if t = []
                                        then ''https://img.youtube.com/vi/'' @ track_id nextSong
                                               @ ''/mqdefault.jpg''
                                        else t
                                    | None \<Rightarrow>
                                        ''https://img.youtube.com/vi/'' @ track_id nextSong
                                          @ ''/mqdefault.jpg''),
                                 np_remaining = Some (length remaining),
                                 np_buttons = vote_buttons (track_id nextSong)\<rparr>), st8)))))"

definition Object_prototype_names :: "string list" where
  \<comment> \<open>the properties of \<^verbatim>\<open>Object.prototype\<close>, which a lookup on any plain object finds;
      each of them is a function or an object, hence truthy\<close>
  "Object_prototype_names =
     [''constructor'', ''__defineGetter__'', ''__defineSetter__'', ''hasOwnProperty'',
      ''__lookupGetter__'', ''__lookupSetter__'', ''isPrototypeOf'',
      ''propertyIsEnumerable'', ''toString'', ''valueOf'', ''__proto__'',
      ''toLocaleString'']"

definition merge_history ::
    "song \<Rightarrow> int \<Rightarrow> nat \<Rightarrow> nat \<Rightarrow> (string \<times> hist_entry) list \<Rightarrow> (string \<times> hist_entry) list"
  where
  \<comment> \<open>"Save to History": \<^verbatim>\<open>if (history[songData.id])\<close> add to what the lookup found, else
      create the entry. When the lookup finds an inherited property, the three sums are
      assigned to properties of that inherited function or object, and \<^verbatim>\<open>history\<close>
      itself, which is what gets stored, is as it was\<close>
  "merge_history songData points voters participants hist =
     (case map_of hist (song_id songData) of
        Some e \<Rightarrow>
          AList.update (song_id songData)
            (e\<lparr>totalPoints := totalPoints e + points,
               voterCount := voterCount e + voters,
               participantCount := participantCount e + participants\<rparr>) hist
      | None \<Rightarrow>
          if song_id songData \<in> set Object_prototype_names then hist
          else
            AList.update (song_id songData)
              \<lparr>title = song_title songData, totalPoints = points, voterCount = voters,
               participantCount = participants\<rparr> hist)"

definition vote_end :: "state \<Rightarrow> response \<times> state" where
  "vote_end st0 =
     (let (songDataStr, st1) = get_CURRENT_SONG st0
      in case songDataStr of
           Json songData \<Rightarrow>
             (let (votedUsersStr, st2) = get_VOTED_USERS st1;
                  votedUsers = parse_or [] votedUsersStr;
                  (eligibleVotersStr, st3) = get_ELIGIBLE_VOTERS st2;
                  eligibleVoters = parse_or [] eligibleVotersStr;
                  points = sum_list (map snd votedUsers);
                  voters = length votedUsers;
                  participants = length eligibleVoters;
                  average = average_of points participants;
                  (historyStr, st4) = get_HISTORY st3;
                  hist = parse_or [] historyStr;
                  st5 = put_HISTORY
                          (Json (merge_history songData points voters participants hist)) st4;
                  st6 = put_CURRENT_SONG Blank st5
              in (public (VoteEnded
                    \<lparr>vr_title = song_title songData, vr_totalPoints = points,
                     vr_voterCount = voters, vr_participantCount = participants,
                     vr_average = average, vr_highApproval = (average > 1)\<rparr>), st6))
         | _ \<Rightarrow> (ephemeral NoCurrentSong, st1))"

definition entry_average :: "hist_entry \<Rightarrow> rat" where
  "entry_average a = average_of (totalPoints a) (participantCount a)"

definition by_average :: "hist_entry \<Rightarrow> hist_entry \<Rightarrow> rat" where
  \<comment> \<open>the comparator of the summary: \<^verbatim>\<open>avgB - avgA\<close>\<close>
  "by_average a b = entry_average b - entry_average a"

definition summary_of :: "hist_entry \<Rightarrow> summary_line" where
  "summary_of s = (title s, entry_average s, voterCount s)"

definition session_end :: "state \<Rightarrow> response \<times> state" where
  "session_end st0 =
     (let (session_active, st1) = get_SESSION_ACTIVE st0
      in if session_active = Some ''false'' then (ephemeral NotActive, st1)
         else
           (let (songDataStr, st2) = get_CURRENT_SONG st1
            in if truthy songDataStr then (ephemeral VoteInProgress, st2)
               else
                 (let st3 = put_SESSION_ACTIVE ''false'' st2;
                      (historyStr, st4) = get_HISTORY st3;
                      hist = parse_or [] historyStr;
                      sortedSongs = array_sort by_average (map snd hist)
                  in (public (SessionEnded (map summary_of sortedSongs)), st4))))"


definition enter :: "string option \<Rightarrow> state \<Rightarrow> response \<times> state" where
  \<comment> \<open>the argument is \<^verbatim>\<open>interaction.member.user.id\<close>, \<open>None\<close> without \<^verbatim>\<open>member\<close>\<close>
  "enter member st0 =
     (let (session_active, st1) = get_SESSION_ACTIVE st0
      in if session_active \<noteq> Some ''true'' then (ephemeral NotActive, st1)
         else
           (case member of
              None \<Rightarrow> (Threw, st1)
            | Some userId \<Rightarrow>
                (let (participantsStr, st2) = get_SESSION_PARTICIPANTS st1;
                     participants = parse_or [] participantsStr
                 in if userId \<in> set participants then (ephemeral AlreadyJoined, st2)
                    else
                      (let participants' = participants @ [userId];
                           st3 = put_SESSION_PARTICIPANTS (Json participants') st2
                       in (ephemeral (Joined (length participants')), st3)))))"

definition remove_user :: "string \<Rightarrow> string list \<Rightarrow> state \<Rightarrow> state" where
  \<comment> \<open>the three removals that \<^verbatim>\<open>exit\<close> and \<^verbatim>\<open>kick\<close> both spell out: from the
      participants, from the eligible voters if the key exists, and from the voted users
      if the key exists and holds a truthy score for the user\<close>
  "remove_user userId participants st2 =
     (let st3 = put_SESSION_PARTICIPANTS (Json (filter (\<lambda>i. i \<noteq> userId) participants)) st2;
          (eligibleVotersStr, st4) = get_ELIGIBLE_VOTERS st3;
          st5 = (case eligibleVotersStr of
                   Json eligibleVoters \<Rightarrow>
                     put_ELIGIBLE_VOTERS (Json (filter (\<lambda>i. i \<noteq> userId) eligibleVoters)) st4
                 | _ \<Rightarrow> st4);
          (votedUsersStr, st6) = get_VOTED_USERS st5
      in case votedUsersStr of
           Json votedUsers \<Rightarrow>
             (case map_of votedUsers userId of
                Some points \<Rightarrow>
                  if points \<noteq> 0 then put_VOTED_USERS (Json (AList.delete userId votedUsers)) st6
                  else st6
              | None \<Rightarrow> st6)
         | _ \<Rightarrow> st6)"

definition exit_session :: "string option \<Rightarrow> state \<Rightarrow> response \<times> state" where
  "exit_session member st0 =
     (let (session_active, st1) = get_SESSION_ACTIVE st0
      in if session_active \<noteq> Some ''true'' then (ephemeral NotActive, st1)
         else
           (case member of
              None \<Rightarrow> (Threw, st1)
            | Some userId \<Rightarrow>
                (let (participantsStr, st2) = get_SESSION_PARTICIPANTS st1;
                     participants = parse_or [] participantsStr
                 in if userId \<notin> set participants then (ephemeral NotJoined, st2)
                    else (ephemeral Left, remove_user userId participants st2))))"

definition kick :: "(string \<times> string) list option \<Rightarrow> state \<Rightarrow> response \<times> state" where
  "kick opts st0 =
     (let (session_active, st1) = get_SESSION_ACTIVE st0
      in if session_active \<noteq> Some ''true'' then (ephemeral NotActive, st1)
         else
           (case find_option ''user'' opts of
              None \<Rightarrow> (Threw, st1)
            | Some targetUserId \<Rightarrow>
                (let (participantsStr, st2) = get_SESSION_PARTICIPANTS st1;
                     participants = parse_or [] participantsStr
                 in if targetUserId \<notin> set participants then (ephemeral TargetNotJoined, st2)
                    else (ephemeral Kicked, remove_user targetUserId participants st2))))"

definition list_participants :: "state \<Rightarrow> response \<times> state" where
  "list_participants st0 =
     (let (session_active, st1) = get_SESSION_ACTIVE st0
      in if session_active \<noteq> Some ''true'' then (ephemeral NotActive, st1)
         else
           (let (participantsStr, st2) = get_SESSION_PARTICIPANTS st1;
                participants = parse_or [] participantsStr
            in if length participants = 0 then (ephemeral NoParticipants, st2)
               else (ephemeral (ParticipantList participants), st2)))"

definition vote_button ::
    "string option \<Rightarrow> int \<Rightarrow> string \<Rightarrow> state \<Rightarrow> response \<times> state" where
  \<comment> \<open>the first argument is \<^verbatim>\<open>interaction.member.user.id\<close>, read at "3. CHECK
      ELIGIBILITY"; \<open>None\<close> without \<^verbatim>\<open>member\<close>\<close>
  "vote_button member points buttonVidId st0 =
     (let (active, st1) = get_SESSION_ACTIVE st0
      in if active \<noteq> Some ''true'' then (ephemeral SessionClosed, st1)
         else
           (let (currentSongStr, st2) = get_CURRENT_SONG st1
            in if (case currentSongStr of
                     Json currentSong \<Rightarrow> song_id currentSong \<noteq> buttonVidId
                   | _ \<Rightarrow> True)
               then (ephemeral VoteClosed, st2)
               else
                 (case member of
                    None \<Rightarrow> (Threw, st2)
                  | Some userId \<Rightarrow>
                      (let (participantsStr, st3) = get_SESSION_PARTICIPANTS st2;
                           participants = parse_or [] participantsStr
                       in if userId \<notin> set participants
                          then (ephemeral NotAParticipant, st3)
                          else
                            (let (eligibleVotersStr, st4) = get_ELIGIBLE_VOTERS st3;
                                 eligibleVoters = parse_or [] eligibleVotersStr
                             in if userId \<notin> set eligibleVoters
                                then (ephemeral NotEligible, st4)
                                else
                                  (let (votedUsersStr, st5) = get_VOTED_USERS st4;
                                       votedUsers = parse_or [] votedUsersStr
                                   in if map_of votedUsers userId = Some points
                                      then (ephemeral VoteRetracted,
                                            put_VOTED_USERS
                                              (Json (AList.delete userId votedUsers)) st5)
                                      else (ephemeral (VoteCast points),
                                            put_VOTED_USERS
                                              (Json (AList.update userId points votedUsers))
                                              st5)))))))"

section \<open>The POST route\<close>

definition router_post :: "env \<Rightarrow> interaction \<Rightarrow> state \<Rightarrow> response \<times> state" where
  \<comment> \<open>the manager check is \<^verbatim>\<open>managerOnlyCommands.includes(commandName) &&
      !isManager(interaction, env)\<close>: \<open>isManager\<close> runs, and can throw, for the manager
      commands only\<close>
  "router_post env interaction st =
     (case data interaction of
        PING \<Rightarrow> (PONG, st)
      | APPLICATION_COMMAND name opts \<Rightarrow>
          (let commandName = toLowerCase name
           in if commandName \<in> set managerOnlyCommands \<and> isManager interaction env = None
              then (Threw, st)
              else if commandName \<in> set managerOnlyCommands
                      \<and> isManager interaction env = Some False
              then (ephemeral Forbidden, st)
              else if commandName = SESSION_START_COMMAND_name then session_start env opts st
              else if commandName = VOTE_START_COMMAND_name then vote_start env opts st
              else if commandName = VOTE_NEXT_COMMAND_name then vote_next st
              else if commandName = VOTE_END_COMMAND_name then vote_end st
              else if commandName = SESSION_END_COMMAND_name then session_end st
              else if commandName = ENTER_COMMAND_name
              then enter (member_user_id interaction) st
              else if commandName = EXIT_COMMAND_name
              then exit_session (member_user_id interaction) st
              else if commandName = KICK_COMMAND_name then kick opts st
              else if commandName = PARTICIPANTS_COMMAND_name then list_participants st
              else (BadRequest_UnknownType, st))
      | MESSAGE_COMPONENT customId \<Rightarrow>
          (case voteMatch customId of
             Some (points, buttonVidId) \<Rightarrow>
               vote_button (member_user_id interaction) points buttonVidId st
           | None \<Rightarrow> (BadRequest_UnknownError, st))
      | OTHER_INTERACTION \<Rightarrow> (BadRequest_UnknownError, st))"

fun run :: "(env \<times> interaction) list \<Rightarrow> state \<Rightarrow> state" where
  \<comment> \<open>the store after a sequence of requests, each served to completion\<close>
  "run [] st = st"
| "run ((env, interaction) # rest) st = run rest (snd (router_post env interaction st))"

fun replies :: "(env \<times> interaction) list \<Rightarrow> state \<Rightarrow> response list" where
  \<comment> \<open>the replies to a sequence of requests\<close>
  "replies [] st = []"
| "replies ((env, interaction) # rest) st =
     fst (router_post env interaction st) # replies rest (snd (router_post env interaction st))"

section \<open>Notions used by the properties\<close>

definition writes :: "access list \<Rightarrow> access list" where
  \<comment> \<open>the store calls of a trace that are not reads\<close>
  "writes tr = filter (\<lambda>a. case a of Get k \<Rightarrow> False | _ \<Rightarrow> True) tr"

definition votes_of :: "state \<Rightarrow> (string \<times> int) list" where
  \<comment> \<open>\<^verbatim>\<open>VOTED_USERS\<close> as every handler reads it\<close>
  "votes_of st = parse_or [] (voted_users (db st))"

abbreviation manager :: string where
  "manager \<equiv> ''100000000000001000''"

abbreviation alice :: string where
  "alice \<equiv> ''100000000000000042''"

abbreviation bob :: string where
  "bob \<equiv> ''100000000000000043''"

abbreviation carol :: string where
  "carol \<equiv> ''100000000000000044''"

abbreviation from_server :: "string \<Rightarrow> interaction_data \<Rightarrow> interaction" where
  "from_server userId d \<equiv> \<lparr>member_user_id = Some userId, user_id = None, data = d\<rparr>"

abbreviation from_direct_message :: "string \<Rightarrow> interaction_data \<Rightarrow> interaction" where
  "from_direct_message userId d \<equiv>
     \<lparr>member_user_id = None, user_id = Some userId, data = d\<rparr>"

definition example_env :: env where
  "example_env =
     \<lparr>MANAGER_USER_ID = manager,
      youtube_video_title = (\<lambda>v. Resolved (Some ''Song'')),
      youtube_playlist_items = (\<lambda>p. Resolved None)\<rparr>"

definition open_store :: store where
  \<comment> \<open>the store right after \<^verbatim>\<open>session-start\<close> without a playlist\<close>
  "open_store =
     \<lparr>session_active = Some ''true'', queue = Json [], current_song = Absent,
      session_participants = Json [], eligible_voters = Absent, voted_users = Absent,
      history = Absent\<rparr>"

definition voting_store :: store where
  \<comment> \<open>a vote in progress: alice was a participant when the track started\<close>
  "voting_store =
     \<lparr>session_active = Some ''true'', queue = Json [],
      current_song = Json \<lparr>song_title = ''Song'', song_id = ''dQw4w9WgXcQ'', song_votes = 0\<rparr>,
      session_participants = Json [alice, bob], eligible_voters = Json [alice],
      voted_users = Json [], history = Absent\<rparr>"

definition tallied_store :: store where
  \<comment> \<open>alice and bob were both eligible and have voted 2 and 1\<close>
  "tallied_store =
     \<lparr>session_active = Some ''true'', queue = Json [],
      current_song = Json \<lparr>song_title = ''Song'', song_id = ''dQw4w9WgXcQ'', song_votes = 0\<rparr>,
      session_participants = Json [alice, bob], eligible_voters = Json [alice, bob],
      voted_users = Json [(alice, 2), (bob, 1)], history = Absent\<rparr>"

definition can_vote :: "string \<Rightarrow> string \<Rightarrow> state \<Rightarrow> bool" where
  \<comment> \<open>the four checks of the vote button pass: the user is eligible on the current track\<close>
  "can_vote userId trackId st =
     (session_active (db st) = Some ''true''
      \<and> (case current_song (db st) of Json s \<Rightarrow> song_id s = trackId | _ \<Rightarrow> False)
      \<and> userId \<in> set (parse_or [] (session_participants (db st)))
      \<and> userId \<in> set (parse_or [] (eligible_voters (db st))))"

definition press :: "string \<Rightarrow> int \<Rightarrow> string \<Rightarrow> state \<Rightarrow> state" where
  \<comment> \<open>the state after a press of a vote button by a member\<close>
  "press userId points trackId st = snd (vote_button (Some userId) points trackId st)"






definition summary_store :: store where
  \<comment> \<open>three tracks were voted on; their averages are 2, 0 and 3/2\<close>
  "summary_store =
     \<lparr>session_active = Some ''true'', queue = Json [], current_song = Blank,
      session_participants = Json [alice, bob], eligible_voters = Json [alice, bob],
      voted_users = Json [],
      history = Json
        [(''aaaaaaaaaaa'',
          \<lparr>title = ''A'', totalPoints = 4, voterCount = 2, participantCount = 2\<rparr>),
         (''bbbbbbbbbbb'',
          \<lparr>title = ''B'', totalPoints = 0, voterCount = 0, participantCount = 0\<rparr>),
         (''ccccccccccc'',
          \<lparr>title = ''C'', totalPoints = 3, voterCount = 2, participantCount = 2\<rparr>)]\<rparr>"

definition example_session :: "(env \<times> interaction) list" where
  \<comment> \<open>a session is started, alice enters, a track starts and alice votes 1\<close>
  "example_session =
     [(example_env, from_server manager (APPLICATION_COMMAND ''session-start'' None)),
      (example_env, from_server alice (APPLICATION_COMMAND ''enter'' None)),
      (example_env,
       from_server manager
         (APPLICATION_COMMAND ''vote-start''
            (Some [(''url'', ''https://youtu.be/dQw4w9WgXcQ'')]))),
      (example_env, from_server alice (MESSAGE_COMPONENT ''vote_1_dQw4w9WgXcQ''))]"




definition vote_step :: "(string \<times> int) list \<Rightarrow> (string \<times> int) list \<Rightarrow> bool" where
  \<comment> \<open>what one request can do to the recorded votes: nothing, reset them, remove the
      entry of a user, or record the score 1 or 2 for a user\<close>
  "vote_step vs vs' =
     (vs' = vs \<or> vs' = [] \<or> (\<exists>k. vs' = AList.delete k vs)
      \<or> (\<exists>k v. (v = 1 \<or> v = 2) \<and> vs' = AList.update k v vs))"


definition constructor_session :: "(env \<times> interaction) list" where
  \<comment> \<open>a session in which alice gives 2 points to the track with the video id
      \<^verbatim>\<open>constructor\<close> and the vote is ended\<close>
  "constructor_session =
     [(example_env, from_server manager (APPLICATION_COMMAND ''session-start'' None)),
      (example_env, from_server alice (APPLICATION_COMMAND ''enter'' None)),
      (example_env,
       from_server manager
         (APPLICATION_COMMAND ''vote-start''
            (Some [(''url'', ''https://youtu.be/constructor'')]))),
      (example_env, from_server alice (MESSAGE_COMPONENT ''vote_2_constructor'')),
      (example_env, from_server manager (APPLICATION_COMMAND ''vote-end'' None))]"

section \<open>Unfolding rules\<close>

lemmas port_defs =
  logged_def get_SESSION_ACTIVE_def get_QUEUE_def get_CURRENT_SONG_def
  get_SESSION_PARTICIPANTS_def get_ELIGIBLE_VOTERS_def get_VOTED_USERS_def get_HISTORY_def
  put_SESSION_ACTIVE_def put_QUEUE_def put_CURRENT_SONG_def put_SESSION_PARTICIPANTS_def
  put_ELIGIBLE_VOTERS_def put_VOTED_USERS_def put_HISTORY_def
  delete_CURRENT_SONG_def delete_VOTED_USERS_def delete_ELIGIBLE_VOTERS_def
  delete_HISTORY_def

lemmas command_names =
  SESSION_START_COMMAND_name_def SESSION_END_COMMAND_name_def VOTE_START_COMMAND_name_def
  VOTE_NEXT_COMMAND_name_def VOTE_END_COMMAND_name_def ENTER_COMMAND_name_def
  EXIT_COMMAND_name_def KICK_COMMAND_name_def PARTICIPANTS_COMMAND_name_def

lemmas handler_defs =
  session_start_def session_start_execution_def vote_start_def vote_next_def vote_end_def
  session_end_def enter_def remove_user_def exit_session_def kick_def list_participants_def
  vote_button_def

lemmas regex_defs = getVideoId_def marker_at_def is_line_terminator_def is_word_char_def

lemmas eval_defs =
  router_post_def managerOnlyCommands_def command_names isManager_def toLowerCase_def
  lower_char_def example_env_def handler_defs port_defs init_def empty_store_def truthy_def
  parse_or_def find_option_def regex_defs getVideoTitle_def vote_buttons_def voteMatch_def
  votes_of_def

section \<open>The handlers, case by case\<close>

text \<open>
  Each handler is a chain of reads, tests and writes. The lemmas of this section give
  the reply, the store and the trace of a handler for each outcome of its tests.
\<close>

lemma vote_button_unfold:
  "vote_button (Some userId) points trackId st =
     (if session_active (db st) \<noteq> Some ''true''
      then (ephemeral SessionClosed, st\<lparr>trace := trace st @ [Get SESSION_ACTIVE]\<rparr>)
      else if (\<forall>s. current_song (db st) = Json s \<longrightarrow> song_id s \<noteq> trackId)
      then (ephemeral VoteClosed,
            st\<lparr>trace := trace st @ [Get SESSION_ACTIVE, Get CURRENT_SONG]\<rparr>)
      else if userId \<notin> set (parse_or [] (session_participants (db st)))
      then (ephemeral NotAParticipant,
            st\<lparr>trace := trace st @ [Get SESSION_ACTIVE, Get CURRENT_SONG,
                                   Get SESSION_PARTICIPANTS]\<rparr>)
      else if userId \<notin> set (parse_or [] (eligible_voters (db st)))
      then (ephemeral NotEligible,
            st\<lparr>trace := trace st @ [Get SESSION_ACTIVE, Get CURRENT_SONG,
                                   Get SESSION_PARTICIPANTS, Get ELIGIBLE_VOTERS]\<rparr>)
      else if map_of (votes_of st) userId = Some points
      then (ephemeral VoteRetracted,
            st\<lparr>db := (db st)\<lparr>voted_users := Json (AList.delete userId (votes_of st))\<rparr>,
               trace := trace st @ [Get SESSION_ACTIVE, Get CURRENT_SONG,
                                   Get SESSION_PARTICIPANTS, Get ELIGIBLE_VOTERS,
                                   Get VOTED_USERS, Put VOTED_USERS]\<rparr>)
      else (ephemeral (VoteCast points),
            st\<lparr>db := (db st)\<lparr>voted_users := Json (AList.update userId points (votes_of st))\<rparr>,
               trace := trace st @ [Get SESSION_ACTIVE, Get CURRENT_SONG,
                                   Get SESSION_PARTICIPANTS, Get ELIGIBLE_VOTERS,
                                   Get VOTED_USERS, Put VOTED_USERS]\<rparr>))"
  by (simp add: vote_button_def port_defs Let_def votes_of_def split: slot.splits)


lemma vote_button_without_member:
  "vote_button None points trackId st =
     (if session_active (db st) \<noteq> Some ''true''
      then (ephemeral SessionClosed, st\<lparr>trace := trace st @ [Get SESSION_ACTIVE]\<rparr>)
      else if (\<forall>s. current_song (db st) = Json s \<longrightarrow> song_id s \<noteq> trackId)
      then (ephemeral VoteClosed,
            st\<lparr>trace := trace st @ [Get SESSION_ACTIVE, Get CURRENT_SONG]\<rparr>)
      else (Threw, st\<lparr>trace := trace st @ [Get SESSION_ACTIVE, Get CURRENT_SONG]\<rparr>))"
  by (simp add: vote_button_def port_defs Let_def split: slot.splits)

lemma vote_button_accepted:
  assumes "can_vote userId trackId st"
  shows "vote_button (Some userId) points trackId st =
     (if map_of (votes_of st) userId = Some points
      then (ephemeral VoteRetracted,
            st\<lparr>db := (db st)\<lparr>voted_users := Json (AList.delete userId (votes_of st))\<rparr>,
               trace := trace st @ [Get SESSION_ACTIVE, Get CURRENT_SONG,
                                   Get SESSION_PARTICIPANTS, Get ELIGIBLE_VOTERS,
                                   Get VOTED_USERS, Put VOTED_USERS]\<rparr>)
      else (ephemeral (VoteCast points),
            st\<lparr>db := (db st)\<lparr>voted_users := Json (AList.update userId points (votes_of st))\<rparr>,
               trace := trace st @ [Get SESSION_ACTIVE, Get CURRENT_SONG,
                                   Get SESSION_PARTICIPANTS, Get ELIGIBLE_VOTERS,
                                   Get VOTED_USERS, Put VOTED_USERS]\<rparr>))"
  using assms by (auto simp add: vote_button_unfold can_vote_def split: slot.splits)

lemma votes_of_press:
  assumes "can_vote userId trackId st"
  shows "votes_of (press userId points trackId st) =
           (if map_of (votes_of st) userId = Some points
            then AList.delete userId (votes_of st)
            else AList.update userId points (votes_of st))"
  using assms by (simp add: press_def vote_button_accepted votes_of_def parse_or_def)

lemma can_vote_press:
  assumes "can_vote userId trackId st"
  shows "can_vote userId trackId (press userId points trackId st)"
  using assms by (simp add: press_def vote_button_accepted) (simp add: can_vote_def)




lemma enter_unfold:
  "enter (Some userId) st =
     (if session_active (db st) \<noteq> Some ''true''
      then (ephemeral NotActive, st\<lparr>trace := trace st @ [Get SESSION_ACTIVE]\<rparr>)
      else if userId \<in> set (parse_or [] (session_participants (db st)))
      then (ephemeral AlreadyJoined,
            st\<lparr>trace := trace st @ [Get SESSION_ACTIVE, Get SESSION_PARTICIPANTS]\<rparr>)
      else (ephemeral (Joined (Suc (length (parse_or [] (session_participants (db st)))))),
            st\<lparr>db := (db st)\<lparr>session_participants :=
                      Json (parse_or [] (session_participants (db st)) @ [userId])\<rparr>,
               trace := trace st @ [Get SESSION_ACTIVE, Get SESSION_PARTICIPANTS,
                                   Put SESSION_PARTICIPANTS]\<rparr>))"
  by (simp add: enter_def port_defs Let_def)

lemma enter_without_member:
  "enter None st =
     (if session_active (db st) \<noteq> Some ''true''
      then (ephemeral NotActive, st\<lparr>trace := trace st @ [Get SESSION_ACTIVE]\<rparr>)
      else (Threw, st\<lparr>trace := trace st @ [Get SESSION_ACTIVE]\<rparr>))"
  by (simp add: enter_def port_defs Let_def)


lemma vote_end_unfold:
  "vote_end st =
     (case current_song (db st) of
        Json songData \<Rightarrow>
          (public (VoteEnded
             \<lparr>vr_title = song_title songData,
              vr_totalPoints = sum_list (map snd (votes_of st)),
              vr_voterCount = length (votes_of st),
              vr_participantCount = length (parse_or [] (eligible_voters (db st))),
              vr_average = average_of (sum_list (map snd (votes_of st)))
                             (length (parse_or [] (eligible_voters (db st)))),
              vr_highApproval =
                (average_of (sum_list (map snd (votes_of st)))
                   (length (parse_or [] (eligible_voters (db st)))) > 1)\<rparr>),
           st\<lparr>db := (db st)
                 \<lparr>history :=
                    Json (merge_history songData (sum_list (map snd (votes_of st)))
                            (length (votes_of st))
                            (length (parse_or [] (eligible_voters (db st))))
                            (parse_or [] (history (db st)))),
                  current_song := Blank\<rparr>,
              trace := trace st @ [Get CURRENT_SONG, Get VOTED_USERS, Get ELIGIBLE_VOTERS,
                                   Get HISTORY, Put HISTORY, Put CURRENT_SONG]\<rparr>)
      | _ \<Rightarrow> (ephemeral NoCurrentSong, st\<lparr>trace := trace st @ [Get CURRENT_SONG]\<rparr>))"
  by (simp add: vote_end_def port_defs Let_def votes_of_def split: slot.splits)

lemma session_end_unfold:
  "session_end st =
     (if session_active (db st) = Some ''false''
      then (ephemeral NotActive, st\<lparr>trace := trace st @ [Get SESSION_ACTIVE]\<rparr>)
      else if truthy (current_song (db st))
      then (ephemeral VoteInProgress,
            st\<lparr>trace := trace st @ [Get SESSION_ACTIVE, Get CURRENT_SONG]\<rparr>)
      else (public (SessionEnded
              (map summary_of
                 (array_sort by_average (map snd (parse_or [] (history (db st))))))),
            st\<lparr>db := (db st)\<lparr>session_active := Some ''false''\<rparr>,
               trace := trace st @ [Get SESSION_ACTIVE, Get CURRENT_SONG, Put SESSION_ACTIVE,
                                    Get HISTORY]\<rparr>))"
  by (simp add: session_end_def port_defs Let_def)

lemma flag_false_rejected:
  assumes "session_active (db st) = Some ''false''"
  shows "vote_start env opts st = (ephemeral NotActive, st\<lparr>trace := trace st @ [Get SESSION_ACTIVE]\<rparr>)"
    and "session_end st = (ephemeral NotActive, st\<lparr>trace := trace st @ [Get SESSION_ACTIVE]\<rparr>)"
  using assms by (simp_all add: vote_start_def session_end_def port_defs)


lemma hist_entry_sum:
  "e\<lparr>totalPoints := a, voterCount := b, participantCount := c\<rparr> =
     \<lparr>title = title e, totalPoints = a, voterCount = b, participantCount = c\<rparr>"
  by (cases e) simp

lemma map_of_merge_history:
  assumes "song_id songData \<notin> set Object_prototype_names"
  shows "map_of (merge_history songData points voters participants hist) =
     (map_of hist)(song_id songData \<mapsto>
        (case map_of hist (song_id songData) of
           None \<Rightarrow> \<lparr>title = song_title songData, totalPoints = points, voterCount = voters,
                     participantCount = participants\<rparr>
         | Some e \<Rightarrow> \<lparr>title = title e, totalPoints = totalPoints e + points,
                       voterCount = voterCount e + voters,
                       participantCount = participantCount e + participants\<rparr>))"
  using assms
  by (simp add: merge_history_def update_conv' hist_entry_sum split: option.splits)

lemma merge_history_inherited:
  assumes "song_id songData \<in> set Object_prototype_names"
    and "map_of hist (song_id songData) = None"
  shows "merge_history songData points voters participants hist = hist"
  using assms by (simp add: merge_history_def)

text \<open>
  The result of \<^verbatim>\<open>vote-end\<close> with a current song whose id names no property that
  the history object inherits: the sum of the recorded scores, the number of recorded
  votes, the number of eligible voters and their quotient (0 without eligible voters),
  the high-approval flag exactly when the quotient exceeds 1, the history with the entry
  of the track created or increased by the three numbers and every other entry as it
  was, and the current song blanked.
\<close>

lemma vote_end_result:
  assumes "current_song (db st) = Json songData"
    and "song_id songData \<notin> set Object_prototype_names"
    and "votedUsers = parse_or [] (voted_users (db st))"
    and "eligibleVoters = parse_or [] (eligible_voters (db st))"
    and "hist = parse_or [] (history (db st))"
    and "points = sum_list (map snd votedUsers)"
    and "average = (if length eligibleVoters = 0 then 0
                    else (of_int points :: rat) / of_nat (length eligibleVoters))"
    and "hist' = merge_history songData points (length votedUsers) (length eligibleVoters) hist"
  shows "vote_end st =
           (public (VoteEnded
              \<lparr>vr_title = song_title songData, vr_totalPoints = points,
               vr_voterCount = length votedUsers,
               vr_participantCount = length eligibleVoters,
               vr_average = average, vr_highApproval = (average > 1)\<rparr>),
            st\<lparr>db := (db st)\<lparr>history := Json hist', current_song := Blank\<rparr>,
               trace := trace st @ [Get CURRENT_SONG, Get VOTED_USERS, Get ELIGIBLE_VOTERS,
                                    Get HISTORY, Put HISTORY, Put CURRENT_SONG]\<rparr>)
         \<and> map_of hist' =
             (map_of hist)(song_id songData \<mapsto>
               (case map_of hist (song_id songData) of
                  None \<Rightarrow>
                    \<lparr>title = song_title songData, totalPoints = points,
                     voterCount = length votedUsers,
                     participantCount = length eligibleVoters\<rparr>
                | Some e \<Rightarrow>
                    \<lparr>title = title e, totalPoints = totalPoints e + points,
                     voterCount = voterCount e + length votedUsers,
                     participantCount = participantCount e + length eligibleVoters\<rparr>))"
proof -
  have "map_of hist' =
          (map_of hist)(song_id songData \<mapsto>
            (case map_of hist (song_id songData) of
               None \<Rightarrow>
                 \<lparr>title = song_title songData, totalPoints = points,
                  voterCount = length votedUsers,
                  participantCount = length eligibleVoters\<rparr>
             | Some e \<Rightarrow>
                 \<lparr>title = title e, totalPoints = totalPoints e + points,
                  voterCount = voterCount e + length votedUsers,
                  participantCount = participantCount e + length eligibleVoters\<rparr>))"
    unfolding assms(8) by (rule map_of_merge_history [OF assms(2)])
  moreover have "vote_end st =
           (public (VoteEnded
              \<lparr>vr_title = song_title songData, vr_totalPoints = points,
               vr_voterCount = length votedUsers,
               vr_participantCount = length eligibleVoters,
               vr_average = average, vr_highApproval = (average > 1)\<rparr>),
            st\<lparr>db := (db st)\<lparr>history := Json hist', current_song := Blank\<rparr>,
               trace := trace st @ [Get CURRENT_SONG, Get VOTED_USERS, Get ELIGIBLE_VOTERS,
                                    Get HISTORY, Put HISTORY, Put CURRENT_SONG]\<rparr>)"
    using assms by (simp add: vote_end_def port_defs Let_def average_of_def)
  ultimately show ?thesis by simp
qed

lemma vote_end_result_example:
  "vote_end \<lparr>db = tallied_store, trace = []\<rparr> =
     (public (VoteEnded
        \<lparr>vr_title = ''Song'', vr_totalPoints = 3, vr_voterCount = 2,
         vr_participantCount = 2, vr_average = 3 / 2, vr_highApproval = True\<rparr>),
      \<lparr>db = tallied_store
         \<lparr>history :=
            Json [(''dQw4w9WgXcQ'',
                   \<lparr>title = ''Song'', totalPoints = 3, voterCount = 2,
                    participantCount = 2\<rparr>)],
          current_song := Blank\<rparr>,
       trace = [Get CURRENT_SONG, Get VOTED_USERS, Get ELIGIBLE_VOTERS, Get HISTORY,
                Put HISTORY, Put CURRENT_SONG]\<rparr>)"
proof -
  let ?st = "\<lparr>db = tallied_store, trace = []\<rparr>"
  let ?song = "\<lparr>song_title = ''Song'', song_id = ''dQw4w9WgXcQ'', song_votes = 0\<rparr>"
  have h1: "current_song (db ?st) = Json ?song"
    by (simp add: tallied_store_def)
  have h0: "song_id ?song \<notin> set Object_prototype_names"
    by (simp add: Object_prototype_names_def)
  have h2: "[(alice, 2), (bob, 1)] = parse_or [] (voted_users (db ?st))"
    by (simp add: tallied_store_def parse_or_def)
  have h3: "[alice, bob] = parse_or [] (eligible_voters (db ?st))"
    by (simp add: tallied_store_def parse_or_def)
  have h4: "[] = parse_or [] (history (db ?st))"
    by (simp add: tallied_store_def parse_or_def)
  have h5: "(3::int) = sum_list (map snd [(alice, 2), (bob, 1::int)])"
    by simp
  have h6: "(3 / 2 :: rat) = (if length [alice, bob] = 0 then 0
              else (of_int 3 :: rat) / of_nat (length [alice, bob]))"
    by simp
  have h7: "[(''dQw4w9WgXcQ'',
              \<lparr>title = ''Song'', totalPoints = 3, voterCount = 2, participantCount = 2\<rparr>)]
            = merge_history ?song 3 (length [(alice, 2::int), (bob, 1)])
                (length [alice, bob]) []"
    by (simp add: merge_history_def Object_prototype_names_def)
  have "(1::rat) < 3 / 2" by simp
  with vote_end_result [OF h1 h0 h2 h3 h4 h5 h6 h7] show ?thesis
    by simp
qed

lemma insert_by_average:
  "insert_by by_average x ys = insort_key (\<lambda>e. - entry_average e) x ys"
  by (induction ys) (simp_all add: by_average_def)

lemma array_sort_by_average:
  "array_sort by_average xs = sort_key (\<lambda>e. - entry_average e) xs"
proof -
  have "insert_by by_average = insort_key (\<lambda>e. - entry_average e)"
    by (intro ext) (rule insert_by_average)
  then show ?thesis by (simp add: array_sort_def sort_key_def)
qed

section \<open>Two example sessions\<close>

lemma example_session_run:
  "db (run example_session init) =
     \<lparr>session_active = Some ''true'', queue = Json [],
      current_song = Json \<lparr>song_title = ''Song'', song_id = ''dQw4w9WgXcQ'', song_votes = 0\<rparr>,
      session_participants = Json [alice], eligible_voters = Json [alice],
      voted_users = Json [(alice, 1)], history = Absent\<rparr>"
  by (simp add: example_session_def eval_defs)



section \<open>What every request preserves\<close>














lemma list_all_update:
  "list_all P al \<Longrightarrow> P (k, v) \<Longrightarrow> list_all P (AList.update k v al)"
  by (induction al) auto

lemma list_all_delete:
  "list_all P al \<Longrightarrow> list_all P (AList.delete k al)"
  by (induction al) auto

lemma sum_scores_le:
  "list_all (\<lambda>(u, p). p = 1 \<or> p = 2) al \<Longrightarrow> sum_list (map snd al) \<le> 2 * int (length al)"
  by (induction al) auto

lemma voteMatch_Some:
  assumes "voteMatch customId = Some (points, trackId)"
  shows "points = 1 \<or> points = 2"
    and "customId = ''vote_'' @ (if points = 1 then ''1'' else ''2'') @ ''_'' @ trackId"
    and "trackId \<noteq> []"
    and "\<not> list_ex is_line_terminator trackId"
proof -
  from assms have t: "take 5 customId = ''vote_''" and l: "8 \<le> length customId"
    and d: "customId ! 5 = CHR ''1'' \<or> customId ! 5 = CHR ''2''"
    and u: "customId ! 6 = CHR ''_''"
    and r: "trackId = drop 7 customId"
    and p: "points = (if customId ! 5 = CHR ''1'' then 1 else 2)"
    and n: "\<not> list_ex is_line_terminator trackId"
    by (auto simp add: voteMatch_def Let_def split: if_splits)
  show "points = 1 \<or> points = 2" using p by simp
  show "trackId \<noteq> []" using r l by simp
  show "\<not> list_ex is_line_terminator trackId" by (rule n)
  have "customId = take 5 customId @ drop 5 customId" by simp
  also have "drop 5 customId = customId ! 5 # drop 6 customId"
    using l by (simp add: Cons_nth_drop_Suc [symmetric])
  also have "drop 6 customId = customId ! 6 # drop 7 customId"
    using l by (simp add: Cons_nth_drop_Suc [symmetric])
  finally show "customId = ''vote_'' @ (if points = 1 then ''1'' else ''2'') @ ''_'' @ trackId"
    using t d u r p by auto
qed

lemma vote_step_same: "votes_of st' = votes_of st \<Longrightarrow> vote_step (votes_of st) (votes_of st')"
  by (simp add: vote_step_def)

lemma vote_step_session_start:
  "vote_step (votes_of st) (votes_of (snd (session_start env opts st)))"
  by (simp add: session_start_def session_start_execution_def port_defs Let_def vote_step_def
      votes_of_def parse_or_def split: option.splits fetched.splits)

lemma vote_step_vote_start:
  "vote_step (votes_of st) (votes_of (snd (vote_start env opts st)))"
  by (simp add: vote_start_def port_defs Let_def vote_step_def votes_of_def
      split: option.splits fetched.splits) (simp add: parse_or_def)

lemma vote_step_vote_next:
  "vote_step (votes_of st) (votes_of (snd (vote_next st)))"
  by (simp add: vote_next_def port_defs Let_def vote_step_def votes_of_def
      split: list.splits) (simp add: parse_or_def)

lemma vote_step_vote_end:
  "vote_step (votes_of st) (votes_of (snd (vote_end st)))"
  by (simp add: vote_end_unfold vote_step_def split: slot.splits) (simp add: votes_of_def)

lemma vote_step_session_end:
  "vote_step (votes_of st) (votes_of (snd (session_end st)))"
  by (simp add: session_end_unfold vote_step_def) (simp add: votes_of_def)

lemma vote_step_enter:
  "vote_step (votes_of st) (votes_of (snd (enter m st)))"
  by (cases m) (simp_all add: enter_unfold enter_without_member vote_step_def votes_of_def)

lemma votes_of_remove_user:
  "votes_of (remove_user u ps st) = votes_of st
   \<or> votes_of (remove_user u ps st) = AList.delete u (votes_of st)"
  by (simp add: remove_user_def port_defs Let_def votes_of_def parse_or_def
      split: slot.splits option.splits)

lemma votes_of_logged: "votes_of (logged a st) = votes_of st"
  by (simp add: logged_def votes_of_def)

lemma vote_step_remove_user:
  "votes_of st' = votes_of st \<Longrightarrow> vote_step (votes_of st) (votes_of (remove_user u ps st'))"
  using votes_of_remove_user [of u ps st'] by (auto simp add: vote_step_def)

lemma vote_step_exit_session:
  "vote_step (votes_of st) (votes_of (snd (exit_session m st)))"
  by (simp add: exit_session_def get_SESSION_ACTIVE_def get_SESSION_PARTICIPANTS_def Let_def
      vote_step_remove_user vote_step_same votes_of_logged split: option.splits)

lemma vote_step_kick:
  "vote_step (votes_of st) (votes_of (snd (kick opts st)))"
  by (simp add: kick_def get_SESSION_ACTIVE_def get_SESSION_PARTICIPANTS_def Let_def
      vote_step_remove_user vote_step_same votes_of_logged split: option.splits)

lemma vote_step_list_participants:
  "vote_step (votes_of st) (votes_of (snd (list_participants st)))"
  by (simp add: list_participants_def port_defs Let_def vote_step_def votes_of_def)

lemma vote_step_vote_button:
  "p = 1 \<or> p = 2 \<Longrightarrow> vote_step (votes_of st) (votes_of (snd (vote_button m p t st)))"
proof (cases m)
  case None
  then show ?thesis
    by (simp add: vote_button_without_member vote_step_def votes_of_def)
next
  case (Some u)
  assume "p = 1 \<or> p = 2"
  then show ?thesis
    unfolding Some
    by (auto simp add: vote_button_unfold vote_step_def)
       (auto simp add: votes_of_def parse_or_def)
qed


lemma vote_step_router_post:
  "vote_step (votes_of st) (votes_of (snd (router_post env i st)))"
  by (auto simp add: router_post_def Let_def vote_step_session_start vote_step_vote_start
      vote_step_vote_next vote_step_vote_end vote_step_session_end vote_step_enter
      vote_step_exit_session vote_step_kick vote_step_list_participants
      vote_step_vote_button vote_step_same
      dest: voteMatch_Some(1)
      split: interaction_data.splits option.splits prod.splits)

lemma vote_step_scores:
  "vote_step vs vs' \<Longrightarrow> list_all (\<lambda>(u, p). p = 1 \<or> p = 2) vs
     \<Longrightarrow> list_all (\<lambda>(u, p). p = 1 \<or> p = 2) vs'"
  by (auto simp add: vote_step_def list_all_delete list_all_update)

lemma vote_step_distinct:
  "vote_step vs vs' \<Longrightarrow> distinct (map fst vs) \<Longrightarrow> distinct (map fst vs')"
  by (auto simp add: vote_step_def distinct_update distinct_delete)

lemma scores_run:
  "list_all (\<lambda>(u, p). p = 1 \<or> p = 2) (votes_of st)
     \<Longrightarrow> list_all (\<lambda>(u, p). p = 1 \<or> p = 2) (votes_of (run reqs st))"
proof (induction reqs st rule: run.induct)
  case (1 st)
  then show ?case by simp
next
  case (2 env i rest st)
  from vote_step_scores [OF vote_step_router_post "2.prems"] "2.IH" show ?case by simp
qed

lemma distinct_run:
  "distinct (map fst (votes_of st)) \<Longrightarrow> distinct (map fst (votes_of (run reqs st)))"
proof (induction reqs st rule: run.induct)
  case (1 st)
  then show ?case by simp
next
  case (2 env i rest st)
  from vote_step_distinct [OF vote_step_router_post "2.prems"] "2.IH" show ?case by simp
qed


























section \<open>Rejections\<close>

text \<open>
  C8. With an active session, no current song and a queue that is empty or absent,
  \<^verbatim>\<open>vote-next\<close> (AdvanceQueue) answers QueueEmpty; it has read three keys and nothing
  else happened to the store.
\<close>

theorem C8_advance_queue_empty:
  assumes "session_active (db st) = Some ''true''"
    and "\<not> truthy (current_song (db st))"
    and "queue (db st) = Absent \<or> queue (db st) = Json []"
  shows "vote_next st =
           (ephemeral QueueEmpty,
            st\<lparr>trace := trace st @ [Get SESSION_ACTIVE, Get CURRENT_SONG, Get QUEUE]\<rparr>)"
  using assms by (auto simp add: vote_next_def port_defs parse_or_def)

theorem C8_advance_queue_empty_witness:
  "session_active open_store = Some ''true''
   \<and> \<not> truthy (current_song open_store)
   \<and> queue open_store = Json []
   \<and> vote_next \<lparr>db = open_store, trace = []\<rparr> =
       (ephemeral QueueEmpty,
        \<lparr>db = open_store, trace = [Get SESSION_ACTIVE, Get CURRENT_SONG, Get QUEUE]\<rparr>)"
  using C8_advance_queue_empty [where st = "\<lparr>db = open_store, trace = []\<rparr>"]
  by (simp add: open_store_def truthy_def)

text \<open>
  C4. A press of a vote button is checked in this order: the session must be active
  (SessionClosed), the current song must exist and carry the track id of the button
  (VoteClosed), the user must be a participant (NotAParticipant) and must be among the
  eligible voters (NotEligible). After each of these four answers the store is as it was
  and no write was issued. The first two checks come before the user id is read, so
  they are stated for any interaction, with or without \<^verbatim>\<open>member\<close>.
\<close>

theorem C4_vote_rejections:
  "(session_active (db st) \<noteq> Some ''true''
      \<longrightarrow> fst (vote_button m points trackId st) = ephemeral SessionClosed)
   \<and> (session_active (db st) = Some ''true''
        \<and> (\<forall>s. current_song (db st) = Json s \<longrightarrow> song_id s \<noteq> trackId)
      \<longrightarrow> fst (vote_button m points trackId st) = ephemeral VoteClosed)
   \<and> (session_active (db st) = Some ''true''
        \<and> current_song (db st) = Json s \<and> song_id s = trackId
        \<and> userId \<notin> set (parse_or [] (session_participants (db st)))
      \<longrightarrow> fst (vote_button (Some userId) points trackId st) = ephemeral NotAParticipant)
   \<and> (session_active (db st) = Some ''true''
        \<and> current_song (db st) = Json s \<and> song_id s = trackId
        \<and> userId \<in> set (parse_or [] (session_participants (db st)))
        \<and> userId \<notin> set (parse_or [] (eligible_voters (db st)))
      \<longrightarrow> fst (vote_button (Some userId) points trackId st) = ephemeral NotEligible)
   \<and> (fst (vote_button m points trackId st)
          \<in> {ephemeral SessionClosed, ephemeral VoteClosed, ephemeral NotAParticipant,
              ephemeral NotEligible}
      \<longrightarrow> db (snd (vote_button m points trackId st)) = db st
          \<and> writes (trace (snd (vote_button m points trackId st))) = writes (trace st))"
  by (cases m) (simp_all add: vote_button_unfold vote_button_without_member writes_def)

theorem C4_vote_rejections_witness:
  "vote_button (Some alice) 1 ''dQw4w9WgXcQ'' init =
     (ephemeral SessionClosed, \<lparr>db = empty_store, trace = [Get SESSION_ACTIVE]\<rparr>)
   \<and> vote_button (Some alice) 1 ''dQw4w9WgXcQ'' \<lparr>db = open_store, trace = []\<rparr> =
     (ephemeral VoteClosed, \<lparr>db = open_store, trace = [Get SESSION_ACTIVE, Get CURRENT_SONG]\<rparr>)
   \<and> vote_button (Some alice) 1 ''aaaaaaaaaaa'' \<lparr>db = voting_store, trace = []\<rparr> =
     (ephemeral VoteClosed, \<lparr>db = voting_store, trace = [Get SESSION_ACTIVE, Get CURRENT_SONG]\<rparr>)
   \<and> vote_button (Some carol) 1 ''dQw4w9WgXcQ'' \<lparr>db = voting_store, trace = []\<rparr> =
     (ephemeral NotAParticipant,
      \<lparr>db = voting_store,
       trace = [Get SESSION_ACTIVE, Get CURRENT_SONG, Get SESSION_PARTICIPANTS]\<rparr>)
   \<and> vote_button (Some bob) 1 ''dQw4w9WgXcQ'' \<lparr>db = voting_store, trace = []\<rparr> =
     (ephemeral NotEligible,
      \<lparr>db = voting_store,
       trace = [Get SESSION_ACTIVE, Get CURRENT_SONG, Get SESSION_PARTICIPANTS,
                Get ELIGIBLE_VOTERS]\<rparr>)"
  using C4_vote_rejections [where st = init and m = "Some alice" and userId = alice
      and points = 1 and trackId = "''dQw4w9WgXcQ''"]
    C4_vote_rejections [where st = "\<lparr>db = open_store, trace = []\<rparr>" and m = "Some alice"
      and userId = alice and points = 1 and trackId = "''dQw4w9WgXcQ''"]
    C4_vote_rejections [where st = "\<lparr>db = voting_store, trace = []\<rparr>" and m = "Some carol"
      and userId = carol and points = 1 and trackId = "''dQw4w9WgXcQ''"
      and s = "\<lparr>song_title = ''Song'', song_id = ''dQw4w9WgXcQ'', song_votes = 0\<rparr>"]
    C4_vote_rejections [where st = "\<lparr>db = voting_store, trace = []\<rparr>" and m = "Some bob"
      and userId = bob and points = 1 and trackId = "''dQw4w9WgXcQ''"
      and s = "\<lparr>song_title = ''Song'', song_id = ''dQw4w9WgXcQ'', song_votes = 0\<rparr>"]
  by (simp add: vote_button_def port_defs init_def empty_store_def open_store_def
      voting_store_def parse_or_def)

text \<open>
  C9, as stated, fails for an interaction without \<^verbatim>\<open>member\<close>, which is what a verified
  caller sends from a direct message. The caller's id is read as
  \<^verbatim>\<open>interaction.member.user.id\<close>, so the read throws: \<^verbatim>\<open>kick\<close> by a caller who is not
  the manager is not answered with the Forbidden message, and \<^verbatim>\<open>enter\<close> is not available
  to that caller while a session is active.
\<close>

theorem C9_direct_message_counterexample:
  "alice \<noteq> MANAGER_USER_ID example_env
   \<and> router_post example_env
        (from_direct_message alice (APPLICATION_COMMAND ''kick'' (Some [(''user'', bob)])))
        \<lparr>db = voting_store, trace = []\<rparr>
       = (Threw, \<lparr>db = voting_store, trace = []\<rparr>)
   \<and> router_post example_env
        (from_direct_message alice (APPLICATION_COMMAND ''enter'' None))
        \<lparr>db = voting_store, trace = []\<rparr>
       = (Threw, \<lparr>db = voting_store, trace = [Get SESSION_ACTIVE]\<rparr>)"
  by (simp add: router_post_def managerOnlyCommands_def command_names isManager_def
      toLowerCase_def lower_char_def example_env_def enter_without_member voting_store_def)

text \<open>
  C9, amended. The manager commands are the seven named ones. For an interaction that
  carries \<^verbatim>\<open>member\<close>, a manager command by a caller whose id is not the configured manager
  id is answered with the ephemeral Forbidden message and the state is returned as it was
  given: no key was read and none was written. For an interaction without \<^verbatim>\<open>member\<close> a
  manager command throws, also with the state as it was given. \<^verbatim>\<open>enter\<close>, \<^verbatim>\<open>exit\<close> and a
  vote button reach their handler whoever the caller is, and for a caller with
  \<^verbatim>\<open>member\<close> the handler does not throw.
\<close>

theorem C9_manager_only:
  "set managerOnlyCommands =
     {''session-start'', ''session-end'', ''vote-start'', ''vote-end'', ''vote-next'',
      ''kick'', ''participants''}
   \<and> (toLowerCase name \<in> set managerOnlyCommands \<and> caller \<noteq> MANAGER_USER_ID env
      \<longrightarrow> router_post env
            \<lparr>member_user_id = Some caller, user_id = dm,
             data = APPLICATION_COMMAND name opts\<rparr> st
            = (ephemeral Forbidden, st))
   \<and> (toLowerCase name \<in> set managerOnlyCommands
      \<longrightarrow> router_post env
            \<lparr>member_user_id = None, user_id = dm, data = APPLICATION_COMMAND name opts\<rparr> st
            = (Threw, st))
   \<and> router_post env
        \<lparr>member_user_id = m, user_id = dm, data = APPLICATION_COMMAND ''enter'' opts\<rparr> st
       = enter m st
   \<and> router_post env
        \<lparr>member_user_id = m, user_id = dm, data = APPLICATION_COMMAND ''exit'' opts\<rparr> st
       = exit_session m st
   \<and> (voteMatch customId = Some (points, trackId)
      \<longrightarrow> router_post env
            \<lparr>member_user_id = m, user_id = dm, data = MESSAGE_COMPONENT customId\<rparr> st
            = vote_button m points trackId st)
   \<and> fst (enter (Some caller) st) \<noteq> Threw
   \<and> fst (exit_session (Some caller) st) \<noteq> Threw
   \<and> fst (vote_button (Some caller) points trackId st) \<noteq> Threw"
proof -
  have names: "set managerOnlyCommands =
     {''session-start'', ''session-end'', ''vote-start'', ''vote-end'', ''vote-next'',
      ''kick'', ''participants''}"
    by (auto simp add: managerOnlyCommands_def command_names)
  have forbidden: "toLowerCase name \<in> set managerOnlyCommands \<and> caller \<noteq> MANAGER_USER_ID env
      \<longrightarrow> router_post env
            \<lparr>member_user_id = Some caller, user_id = dm,
             data = APPLICATION_COMMAND name opts\<rparr> st
            = (ephemeral Forbidden, st)"
    by (simp add: router_post_def isManager_def)
  have throws: "toLowerCase name \<in> set managerOnlyCommands
      \<longrightarrow> router_post env
            \<lparr>member_user_id = None, user_id = dm, data = APPLICATION_COMMAND name opts\<rparr> st
            = (Threw, st)"
    by (simp add: router_post_def isManager_def)
  have enters: "router_post env
        \<lparr>member_user_id = m, user_id = dm, data = APPLICATION_COMMAND ''enter'' opts\<rparr> st
       = enter m st"
    and exits: "router_post env
        \<lparr>member_user_id = m, user_id = dm, data = APPLICATION_COMMAND ''exit'' opts\<rparr> st
       = exit_session m st"
    by (simp_all add: router_post_def managerOnlyCommands_def command_names toLowerCase_def
        lower_char_def)
  have presses: "voteMatch customId = Some (points, trackId)
      \<longrightarrow> router_post env
            \<lparr>member_user_id = m, user_id = dm, data = MESSAGE_COMPONENT customId\<rparr> st
            = vote_button m points trackId st"
    by (simp add: router_post_def)
  have e: "fst (enter (Some caller) st) \<noteq> Threw"
    by (simp add: enter_unfold)
  have x: "fst (exit_session (Some caller) st) \<noteq> Threw"
    by (simp add: exit_session_def get_SESSION_ACTIVE_def get_SESSION_PARTICIPANTS_def Let_def)
  have v: "fst (vote_button (Some caller) points trackId st) \<noteq> Threw"
    by (simp add: vote_button_unfold)
  from names forbidden throws enters exits presses e x v show ?thesis
    by blast
qed

theorem C9_manager_only_witness:
  "toLowerCase ''Kick'' \<in> set managerOnlyCommands
   \<and> alice \<noteq> MANAGER_USER_ID example_env
   \<and> router_post example_env
        (from_server alice (APPLICATION_COMMAND ''Kick'' (Some [(''user'', bob)])))
        \<lparr>db = voting_store, trace = []\<rparr>
       = (ephemeral Forbidden, \<lparr>db = voting_store, trace = []\<rparr>)
   \<and> voteMatch ''vote_2_dQw4w9WgXcQ'' = Some (2, ''dQw4w9WgXcQ'')
   \<and> router_post example_env
        (from_server alice (MESSAGE_COMPONENT ''vote_2_dQw4w9WgXcQ''))
        \<lparr>db = voting_store, trace = []\<rparr>
       = vote_button (Some alice) 2 ''dQw4w9WgXcQ'' \<lparr>db = voting_store, trace = []\<rparr>"
  using C9_manager_only [where name = "''Kick''" and caller = alice and env = example_env
      and opts = "Some [(''user'', bob)]" and st = "\<lparr>db = voting_store, trace = []\<rparr>"
      and customId = "''vote_2_dQw4w9WgXcQ''" and points = 2 and trackId = "''dQw4w9WgXcQ''"
      and m = "Some alice" and dm = None]
  by (simp add: managerOnlyCommands_def command_names toLowerCase_def lower_char_def
      example_env_def voteMatch_def is_line_terminator_def)

section \<open>The session flag\<close>

text \<open>
  C1. On the empty store, where \<^verbatim>\<open>SESSION_ACTIVE\<close> is absent, the two handlers do not
  answer NotActive: they compare the flag with the string \<^verbatim>\<open>false\<close> only, where
  \<^verbatim>\<open>vote-next\<close>, \<^verbatim>\<open>enter\<close>, \<^verbatim>\<open>exit\<close>, \<^verbatim>\<open>kick\<close>, \<^verbatim>\<open>participants\<close> and the vote
  button test for a flag other than \<^verbatim>\<open>true\<close>. \<^verbatim>\<open>vote-start\<close> opens a vote and writes
  three keys, \<^verbatim>\<open>session-end\<close> reports an empty summary and writes the flag.
\<close>

theorem C1_inactive_by_absence:
  "router_post example_env
     (from_server manager
        (APPLICATION_COMMAND ''vote-start'' (Some [(''url'', ''https://youtu.be/dQw4w9WgXcQ'')])))
     init =
     (public (NowPlaying
        \<lparr>np_title = ''Song'', np_url = ''https://youtu.be/dQw4w9WgXcQ'',
         np_image = ''https://img.youtube.com/vi/dQw4w9WgXcQ/mqdefault.jpg'',
         np_remaining = None,
         np_buttons = [''vote_1_dQw4w9WgXcQ'', ''vote_2_dQw4w9WgXcQ'']\<rparr>),
      \<lparr>db = empty_store
         \<lparr>current_song :=
            Json \<lparr>song_title = ''Song'', song_id = ''dQw4w9WgXcQ'', song_votes = 0\<rparr>,
          voted_users := Json [], eligible_voters := Json []\<rparr>,
       trace = [Get SESSION_ACTIVE, Get CURRENT_SONG, Get SESSION_PARTICIPANTS,
                Put CURRENT_SONG, Put VOTED_USERS, Put ELIGIBLE_VOTERS]\<rparr>)
   \<and> router_post example_env
       (from_server manager (APPLICATION_COMMAND ''session-end'' None)) init =
     (public (SessionEnded []),
      \<lparr>db = empty_store\<lparr>session_active := Some ''false''\<rparr>,
       trace = [Get SESSION_ACTIVE, Get CURRENT_SONG, Put SESSION_ACTIVE, Get HISTORY]\<rparr>)"
  by (simp add: router_post_def managerOnlyCommands_def command_names isManager_def
      toLowerCase_def lower_char_def example_env_def vote_start_def session_end_def
      port_defs init_def empty_store_def truthy_def parse_or_def find_option_def
      regex_defs getVideoTitle_def vote_buttons_def array_sort_def)


section \<open>Ending a vote\<close>

text \<open>
  C3. For a track whose id names a property that every object inherits, \<^verbatim>\<open>vote-end\<close>
  does not record the result. \<^verbatim>\<open>https://youtu.be/constructor\<close> is a url that
  \<^verbatim>\<open>vote-start\<close> accepts, with the video id \<^verbatim>\<open>constructor\<close>. In the session below alice
  gives the track 2 points; \<^verbatim>\<open>vote-end\<close> reports 2 points, 1 vote, 1 eligible voter and
  the average 2 with high approval, and blanks the current song, but the history it
  stores has no entry for the track: the test \<^verbatim>\<open>history[songData.id]\<close> finds the
  inherited \<^verbatim>\<open>constructor\<close> and the three sums go to that function. For every other id
  the result is the one of \<open>vote_end_result\<close>.
\<close>

theorem C3_constructor_not_recorded:
  "getVideoId ''https://youtu.be/constructor'' = Some ''constructor''
   \<and> last (replies constructor_session init) =
       public (VoteEnded
         \<lparr>vr_title = ''Song'', vr_totalPoints = 2, vr_voterCount = 1,
          vr_participantCount = 1, vr_average = 2, vr_highApproval = True\<rparr>)
   \<and> history (db (run constructor_session init)) = Json []
   \<and> current_song (db (run constructor_session init)) = Blank"
  by (simp add: constructor_session_def eval_defs merge_history_def average_of_def
      Object_prototype_names_def Let_def)

section \<open>Casting and retracting a vote\<close>

text \<open>
  C5. For a user who passes the four checks on the current track: when a press of a
  score is answered as a cast, the same press again is answered as a retraction and
  leaves the user without a vote; a press of 1 followed by a press of 2 leaves the score
  2; one press of the score held retracts it and one press of any other score records
  that score; and the recorded votes keep one entry per user, as they have in every
  state reached from the empty store.
\<close>

theorem C5_toggle:
  assumes "can_vote u t st"
  shows "(fst (vote_button (Some u) p t st) = ephemeral (VoteCast p)
            \<longrightarrow> fst (vote_button (Some u) p t (press u p t st)) = ephemeral VoteRetracted
                \<and> u \<notin> fst ` set (votes_of (press u p t (press u p t st))))
         \<and> map_of (votes_of (press u 2 t (press u 1 t st))) u = Some 2
         \<and> (map_of (votes_of st) u = Some p
            \<longrightarrow> fst (vote_button (Some u) p t st) = ephemeral VoteRetracted
                \<and> u \<notin> fst ` set (votes_of (press u p t st)))
         \<and> (map_of (votes_of st) u \<noteq> Some p
            \<longrightarrow> fst (vote_button (Some u) p t st) = ephemeral (VoteCast p)
                \<and> map_of (votes_of (press u p t st)) u = Some p)
         \<and> (distinct (map fst (votes_of st))
            \<longrightarrow> distinct (map fst (votes_of (press u p t st))))
         \<and> distinct (map fst (votes_of (run reqs init)))"
proof -
  note cv = can_vote_press [OF assms]
  have a: "fst (vote_button (Some u) p t st) = ephemeral (VoteCast p)
            \<Longrightarrow> fst (vote_button (Some u) p t (press u p t st)) = ephemeral VoteRetracted
                \<and> u \<notin> fst ` set (votes_of (press u p t (press u p t st)))"
  proof -
    assume cast: "fst (vote_button (Some u) p t st) = ephemeral (VoteCast p)"
    then have held: "map_of (votes_of st) u \<noteq> Some p"
      by (auto simp add: vote_button_accepted [OF assms] split: if_splits)
    then have "map_of (votes_of (press u p t st)) u = Some p"
      by (simp add: votes_of_press [OF assms] update_conv')
    then show ?thesis
      by (simp add: vote_button_accepted [OF cv] votes_of_press [OF cv] delete_notin_dom)
  qed
  have b: "map_of (votes_of (press u 2 t (press u 1 t st))) u = Some 2"
    by (simp add: votes_of_press [OF cv] votes_of_press [OF assms] update_conv' delete_conv')
  have c: "map_of (votes_of st) u = Some p
            \<Longrightarrow> fst (vote_button (Some u) p t st) = ephemeral VoteRetracted
                \<and> u \<notin> fst ` set (votes_of (press u p t st))"
    by (simp add: votes_of_press [OF assms] vote_button_accepted [OF assms] delete_notin_dom)
  have d: "map_of (votes_of st) u \<noteq> Some p
            \<Longrightarrow> fst (vote_button (Some u) p t st) = ephemeral (VoteCast p)
                \<and> map_of (votes_of (press u p t st)) u = Some p"
    by (simp add: votes_of_press [OF assms] vote_button_accepted [OF assms] update_conv')
  have e: "distinct (map fst (votes_of st))
            \<Longrightarrow> distinct (map fst (votes_of (press u p t st)))"
    by (simp add: votes_of_press [OF assms] distinct_update distinct_delete)
  have "distinct (map fst (votes_of init))"
    by (simp add: votes_of_def init_def empty_store_def parse_or_def)
  then have f: "distinct (map fst (votes_of (run reqs init)))"
    by (rule distinct_run)
  from a b c d e f show ?thesis by blast
qed

theorem C5_toggle_witness:
  "can_vote alice ''dQw4w9WgXcQ'' \<lparr>db = voting_store, trace = []\<rparr>
   \<and> fst (vote_button (Some alice) 1 ''dQw4w9WgXcQ'' \<lparr>db = voting_store, trace = []\<rparr>)
       = ephemeral (VoteCast 1)
   \<and> fst (vote_button (Some alice) 1 ''dQw4w9WgXcQ''
            (press alice 1 ''dQw4w9WgXcQ'' \<lparr>db = voting_store, trace = []\<rparr>))
       = ephemeral VoteRetracted
   \<and> alice \<notin> fst ` set (votes_of
        (press alice 1 ''dQw4w9WgXcQ''
           (press alice 1 ''dQw4w9WgXcQ'' \<lparr>db = voting_store, trace = []\<rparr>)))
   \<and> map_of (votes_of
        (press alice 2 ''dQw4w9WgXcQ''
           (press alice 1 ''dQw4w9WgXcQ'' \<lparr>db = voting_store, trace = []\<rparr>))) alice = Some 2
   \<and> distinct (map fst (votes_of
        (press alice 1 ''dQw4w9WgXcQ'' \<lparr>db = voting_store, trace = []\<rparr>)))"
proof -
  let ?st = "\<lparr>db = voting_store, trace = []\<rparr>"
  have h: "can_vote alice ''dQw4w9WgXcQ'' ?st"
    by (simp add: can_vote_def voting_store_def parse_or_def)
  have v: "votes_of ?st = []"
    by (simp add: votes_of_def voting_store_def parse_or_def)
  have c: "fst (vote_button (Some alice) 1 ''dQw4w9WgXcQ'' ?st) = ephemeral (VoteCast 1)"
    by (simp add: vote_button_accepted [OF h] v)
  from C5_toggle [OF h, where p = 1] h v c show ?thesis
    by simp
qed

section \<open>Eligibility is a snapshot\<close>



section \<open>The session summary\<close>

text \<open>
  C7. With the flag \<^verbatim>\<open>true\<close> and no current song, \<^verbatim>\<open>session-end\<close> writes the flag
  \<^verbatim>\<open>false\<close>, changes no other key, and reports the history entries in an order that is a
  permutation of the stored order, descending in the average (total points by participant
  count, 0 without participants) and stable: entries of equal average keep their order.
\<close>

theorem C7_session_summary:
  assumes "session_active (db st) = Some ''true''"
    and "\<not> truthy (current_song (db st))"
    and "songs = map snd (parse_or [] (history (db st)))"
  shows "\<exists>sortedSongs.
           session_end st =
             (public (SessionEnded (map summary_of sortedSongs)),
              st\<lparr>db := (db st)\<lparr>session_active := Some ''false''\<rparr>,
                 trace := trace st @ [Get SESSION_ACTIVE, Get CURRENT_SONG, Put SESSION_ACTIVE,
                                      Get HISTORY]\<rparr>)
           \<and> mset sortedSongs = mset songs
           \<and> sorted_wrt (\<lambda>a b. entry_average a \<ge> entry_average b) sortedSongs
           \<and> (\<forall>k. filter (\<lambda>e. entry_average e = k) sortedSongs
                    = filter (\<lambda>e. entry_average e = k) songs)"
proof -
  let ?sorted = "array_sort by_average songs"
  have "session_end st =
             (public (SessionEnded (map summary_of ?sorted)),
              st\<lparr>db := (db st)\<lparr>session_active := Some ''false''\<rparr>,
                 trace := trace st @ [Get SESSION_ACTIVE, Get CURRENT_SONG, Put SESSION_ACTIVE,
                                      Get HISTORY]\<rparr>)"
    using assms by (simp add: session_end_unfold)
  moreover have "mset ?sorted = mset songs"
    by (simp add: array_sort_by_average)
  moreover have "sorted_wrt (\<lambda>a b. entry_average a \<ge> entry_average b) ?sorted"
  proof -
    have "sorted (map (\<lambda>e. - entry_average e) ?sorted)"
      by (simp add: array_sort_by_average)
    then show ?thesis by (simp add: sorted_map)
  qed
  moreover have "\<forall>k. filter (\<lambda>e. entry_average e = k) ?sorted
                    = filter (\<lambda>e. entry_average e = k) songs"
  proof
    fix k
    have "filter (\<lambda>e. - entry_average e = - k) (sort_key (\<lambda>e. - entry_average e) songs)
            = filter (\<lambda>e. - entry_average e = - k) songs"
      by (rule sort_key_stable)
    then show "filter (\<lambda>e. entry_average e = k) ?sorted
                    = filter (\<lambda>e. entry_average e = k) songs"
      by (simp add: array_sort_by_average)
  qed
  ultimately show ?thesis by blast
qed


theorem C7_session_summary_witness:
  "session_end \<lparr>db = summary_store, trace = []\<rparr> =
     (public (SessionEnded [(''A'', 2, 2), (''C'', 3 / 2, 2), (''B'', 0, 0)]),
      \<lparr>db = summary_store\<lparr>session_active := Some ''false''\<rparr>,
       trace = [Get SESSION_ACTIVE, Get CURRENT_SONG, Put SESSION_ACTIVE, Get HISTORY]\<rparr>)"
proof -
  let ?st = "\<lparr>db = summary_store, trace = []\<rparr>"
  let ?songs = "[\<lparr>title = ''A'', totalPoints = 4, voterCount = 2, participantCount = 2\<rparr>,
         \<lparr>title = ''B'', totalPoints = 0, voterCount = 0, participantCount = 0\<rparr>,
         \<lparr>title = ''C'', totalPoints = 3, voterCount = 2, participantCount = 2\<rparr>]"
  have h1: "session_active (db ?st) = Some ''true''"
    by (simp add: summary_store_def)
  have h2: "\<not> truthy (current_song (db ?st))"
    by (simp add: summary_store_def truthy_def)
  have h3: "?songs = map snd (parse_or [] (history (db ?st)))"
    by (simp add: summary_store_def parse_or_def)
  have e: "array_sort by_average ?songs =
         [\<lparr>title = ''A'', totalPoints = 4, voterCount = 2, participantCount = 2\<rparr>,
          \<lparr>title = ''C'', totalPoints = 3, voterCount = 2, participantCount = 2\<rparr>,
          \<lparr>title = ''B'', totalPoints = 0, voterCount = 0, participantCount = 0\<rparr>]"
    by (simp add: array_sort_def by_average_def entry_average_def average_of_def)
  from C7_session_summary [OF h1 h2 h3]
  obtain sortedSongs where
    r: "session_end ?st =
             (public (SessionEnded (map summary_of sortedSongs)),
              ?st\<lparr>db := (db ?st)\<lparr>session_active := Some ''false''\<rparr>,
                 trace := trace ?st @ [Get SESSION_ACTIVE, Get CURRENT_SONG, Put SESSION_ACTIVE,
                                      Get HISTORY]\<rparr>)"
    by blast
  have "map summary_of sortedSongs = map summary_of (array_sort by_average ?songs)"
    using r h1 h2 h3 by (simp add: session_end_unfold)
  with r e show ?thesis
    by (simp add: summary_of_def entry_average_def average_of_def)
qed

section \<open>Invariants of the store\<close>




text \<open>
  C10. After every sequence of requests on the empty store every recorded score is 1 or
  2. A component interaction whose \<^verbatim>\<open>custom_id\<close> does not match the vote pattern is
  answered with the 400 reply and the state is returned as it was; one that matches has
  the form \<^verbatim>\<open>vote_1_\<close> or \<^verbatim>\<open>vote_2_\<close> followed by the track id, and carries the score
  1 or 2. So the total that \<^verbatim>\<open>vote-end\<close> reports is at most twice the number of votes.
\<close>

theorem C10_scores_one_or_two:
  "list_all (\<lambda>(u, p). p = 1 \<or> p = 2) (votes_of (run reqs init))
   \<and> (voteMatch customId = None
      \<longrightarrow> router_post env \<lparr>member_user_id = m, user_id = dm, data = MESSAGE_COMPONENT customId\<rparr> st
            = (BadRequest_UnknownError, st))
   \<and> (voteMatch customId = Some (points, trackId)
      \<longrightarrow> (points = 1 \<or> points = 2)
          \<and> customId = ''vote_'' @ (if points = 1 then ''1'' else ''2'') @ ''_'' @ trackId)
   \<and> (fst (vote_end (run reqs init)) = public (VoteEnded r)
      \<longrightarrow> vr_totalPoints r \<le> 2 * int (vr_voterCount r))"
proof -
  have "list_all (\<lambda>(u, p). p = 1 \<or> p = 2) (votes_of init)"
    by (simp add: votes_of_def init_def empty_store_def parse_or_def)
  then have a: "list_all (\<lambda>(u, p). p = 1 \<or> p = 2) (votes_of (run reqs init))"
    by (rule scores_run)
  have b: "voteMatch customId = None
      \<Longrightarrow> router_post env \<lparr>member_user_id = m, user_id = dm, data = MESSAGE_COMPONENT customId\<rparr> st
            = (BadRequest_UnknownError, st)"
    by (simp add: router_post_def)
  have c: "voteMatch customId = Some (points, trackId)
      \<Longrightarrow> (points = 1 \<or> points = 2)
          \<and> customId = ''vote_'' @ (if points = 1 then ''1'' else ''2'') @ ''_'' @ trackId"
    using voteMatch_Some(1,2) [of customId points trackId] by blast
  have d: "fst (vote_end (run reqs init)) = public (VoteEnded r)
      \<Longrightarrow> vr_totalPoints r \<le> 2 * int (vr_voterCount r)"
    using sum_scores_le [OF a]
    by (auto simp add: vote_end_unfold split: slot.splits)
  from a b c d show ?thesis by blast
qed

theorem C10_scores_one_or_two_witness:
  "votes_of (run example_session init) = [(alice, 1)]
   \<and> voteMatch ''vote_3_dQw4w9WgXcQ'' = None
   \<and> router_post example_env
        (from_server alice (MESSAGE_COMPONENT ''vote_3_dQw4w9WgXcQ''))
        (run example_session init)
       = (BadRequest_UnknownError, run example_session init)
   \<and> voteMatch ''vote_2_dQw4w9WgXcQ'' = Some (2, ''dQw4w9WgXcQ'')
   \<and> fst (vote_end (run example_session init)) =
        public (VoteEnded
          \<lparr>vr_title = ''Song'', vr_totalPoints = 1, vr_voterCount = 1,
           vr_participantCount = 1, vr_average = 1, vr_highApproval = False\<rparr>)"
proof -
  have v: "votes_of (run example_session init) = [(alice, 1)]"
    by (simp add: votes_of_def example_session_run parse_or_def)
  have m3: "voteMatch ''vote_3_dQw4w9WgXcQ'' = None"
    and m2: "voteMatch ''vote_2_dQw4w9WgXcQ'' = Some (2, ''dQw4w9WgXcQ'')"
    by (simp_all add: voteMatch_def is_line_terminator_def)
  have e: "fst (vote_end (run example_session init)) =
        public (VoteEnded
          \<lparr>vr_title = ''Song'', vr_totalPoints = 1, vr_voterCount = 1,
           vr_participantCount = 1, vr_average = 1, vr_highApproval = False\<rparr>)"
    by (simp add: vote_end_unfold example_session_run votes_of_def parse_or_def
        average_of_def)
  from C10_scores_one_or_two [where reqs = example_session
      and customId = "''vote_3_dQw4w9WgXcQ''" and env = example_env and m = "Some alice" and dm = None
      and st = "run example_session init"] v m3 m2 e
  show ?thesis by simp
qed
end
